theory Spec2Isabelle
  imports Main
begin

section \<open>The configuration store and Python's \<open>or\<close>\<close>

text \<open>
  \<open>pulumi.Config()\<close> is the library's view of the stack's settings. The two modules
  read it through four accessors, each of which returns the value of a key at the
  requested type, or \<open>None\<close> when the key is not set. The accessors are the library's,
  so the store is the record of what they return: every result below holds for every
  such record. A store is taken to be well typed: \<open>get_object\<close> of
  \<open>availability_zones\<close> is a list of zone names.
\<close>

record config =
  get :: "string \<Rightarrow> string option"
  get_int :: "string \<Rightarrow> int option"
  get_bool :: "string \<Rightarrow> bool option"
  get_object :: "string \<Rightarrow> string list option"

text \<open>
  Python's \<open>x or d\<close> is \<open>x\<close> when \<open>x\<close> is truthy and \<open>d\<close> otherwise. \<open>None\<close>,
  \<open>False\<close>, \<open>0\<close>, the empty string and the empty list are falsy.
\<close>

definition py_or :: "('a \<Rightarrow> bool) \<Rightarrow> 'a option \<Rightarrow> 'a \<Rightarrow> 'a" where
  "py_or truthy x d = (case x of None \<Rightarrow> d | Some v \<Rightarrow> if truthy v then v else d)"

definition truthy_str :: "string \<Rightarrow> bool" where
  "truthy_str s = (s \<noteq> [])"

definition truthy_int :: "int \<Rightarrow> bool" where
  "truthy_int i = (i \<noteq> 0)"

definition truthy_bool :: "bool \<Rightarrow> bool" where
  "truthy_bool b = b"

definition truthy_list :: "'a list \<Rightarrow> bool" where
  "truthy_list xs = (xs \<noteq> [])"

section \<open>Property values\<close>

text \<open>
  The value of a keyword argument of a resource declaration: a literal, a list, a
  dictionary (an association list in insertion order), or \<open>PRef v a\<close>, the output
  \<open>a\<close> of the resource object bound to the Python variable \<open>v\<close> (\<open>vpc.id\<close> is
  \<open>PRef ''vpc'' ''id''\<close>). \<open>PJsonDumps x\<close> is the string \<open>json.dumps(x)\<close>.
\<close>

datatype pvalue =
    PStr string
  | PInt int
  | PBool bool
  | PRef string string
  | PList "pvalue list"
  | PDict "(string \<times> pvalue) list"
  | PJsonDumps pvalue

type_synonym pdict = "(string \<times> pvalue) list"

text \<open>Storing under a key: an existing key keeps its place and takes the new value.\<close>

fun dict_set :: "pdict \<Rightarrow> string \<Rightarrow> pvalue \<Rightarrow> pdict" where
  "dict_set [] k v = [(k, v)]"
| "dict_set ((k', v') # d) k v = (if k' = k then (k, v) # d else (k', v') # dict_set d k v)"

text \<open>\<open>{**a, **b}\<close> and dictionary displays: the entries of \<open>b\<close> are stored into \<open>a\<close> in order.\<close>

fun dict_merge :: "pdict \<Rightarrow> pdict \<Rightarrow> pdict" where
  "dict_merge a [] = a"
| "dict_merge a ((k, v) # b) = dict_merge (dict_set a k v) b"

fun dict_get :: "pdict \<Rightarrow> string \<Rightarrow> pvalue option" where
  "dict_get [] k = None"
| "dict_get ((k', v') # d) k = (if k' = k then Some v' else dict_get d k)"

text \<open>A dictionary display \<open>{**a, 'k': v, ...}\<close>: the entries stored in order into \<open>{}\<close>.\<close>

definition dict_display :: "pdict \<Rightarrow> pdict" where
  "dict_display entries = dict_merge [] entries"

text \<open>The outputs of other resources that a value reads, as (variable, output) pairs.\<close>

fun refs_of :: "pvalue \<Rightarrow> (string \<times> string) list" where
  "refs_of (PStr s) = []"
| "refs_of (PInt i) = []"
| "refs_of (PBool b) = []"
| "refs_of (PRef v a) = [(v, a)]"
| "refs_of (PList xs) = concat (map refs_of xs)"
| "refs_of (PDict kvs) = concat (map (\<lambda>(k, v). refs_of v) kvs)"
| "refs_of (PJsonDumps x) = []"

section \<open>Resources and the state of a running program\<close>

datatype error = IndexError | AttributeError

datatype rkind =
    Vpc | InternetGateway | Subnet | Eip | NatGateway | RouteTable | RouteTableAssociation
  | Role | RolePolicyAttachment | SecurityGroup | Cluster | NodeGroup
  | Chart | Deployment | Service | HorizontalPodAutoscaler

text \<open>
  One resource declaration \<open>v = Kind(name, key=value, ..., opts=ResourceOptions(...))\<close>:
  the variable the object is bound to, its kind, its logical name, its keyword arguments
  in source order, and from the options the \<open>depends_on\<close> list (the variables of the
  objects listed) and the provider.
\<close>

record resource =
  rvar :: string
  rkind :: rkind
  rname :: string
  rargs :: pdict
  rdepends_on :: "string list"
  rprovider :: "string option"

text \<open>
  What running a program leaves behind: the resources in the order their constructors
  ran, the stack outputs set by \<open>pulumi.export\<close>, and the messages of \<open>pulumi.info\<close>.
\<close>

record program_state =
  resources :: "resource list"
  exports :: pdict
  messages :: "string list"

definition initial_state :: program_state where
  "initial_state = \<lparr> resources = [], exports = [], messages = [] \<rparr>"

definition register :: "resource \<Rightarrow> program_state \<Rightarrow> program_state" where
  "register r st = st\<lparr> resources := resources st @ [r] \<rparr>"

definition pulumi_export :: "string \<Rightarrow> pvalue \<Rightarrow> program_state \<Rightarrow> program_state" where
  "pulumi_export k v st = st\<lparr> exports := dict_set (exports st) k v \<rparr>"

definition pulumi_info :: "string \<Rightarrow> program_state \<Rightarrow> program_state" where
  "pulumi_info m st = st\<lparr> messages := messages st @ [m] \<rparr>"

text \<open>\<open>xs[i]\<close> for a literal index \<open>i \<ge> 0\<close>: IndexError out of range.\<close>

definition py_index :: "'a list \<Rightarrow> nat \<Rightarrow> error + 'a" where
  "py_index xs i = (if i < length xs then Inr (xs ! i) else Inl IndexError)"

text \<open>Sequencing of statements that can raise: the first error ends the run.\<close>

definition and_then :: "error + 'a \<Rightarrow> ('a \<Rightarrow> error + 'b) \<Rightarrow> error + 'b" where
  "and_then x f = (case x of Inl e \<Rightarrow> Inl e | Inr v \<Rightarrow> f v)"

definition arg :: "resource \<Rightarrow> string \<Rightarrow> pvalue option" where
  "arg r k = dict_get (rargs r) k"

definition resource_refs :: "resource \<Rightarrow> (string \<times> string) list" where
  "resource_refs r = concat (map (\<lambda>(k, v). refs_of v) (rargs r))"

text \<open>
  The dependency edges of a declaration: one for each output it reads, and one for each
  entry of \<open>depends_on\<close>.
\<close>

definition deps :: "resource \<Rightarrow> string list" where
  "deps r = map fst (resource_refs r) @ rdepends_on r"

fun find_var :: "resource list \<Rightarrow> string \<Rightarrow> resource option" where
  "find_var [] v = None"
| "find_var (r # rs) v = (if rvar r = v then Some r else find_var rs v)"

section \<open>config.py\<close>

record config_globals =
  vpc_name :: string
  vpc_cidr :: string
  availability_zones :: "string list"
  private_subnet_1_cidr :: string
  private_subnet_2_cidr :: string
  public_subnet_1_cidr :: string
  public_subnet_2_cidr :: string
  cluster_name :: string
  cluster_version :: string
  cluster_role_name :: string
  node_group_name :: string
  node_desired_count :: int
  node_min_count :: int
  node_max_count :: int
  node_instance_type :: string
  node_role_name :: string
  aws_region :: string
  common_tags :: "(string \<times> string) list"

definition config_module :: "config \<Rightarrow> config_globals" where
  "config_module c = \<lparr>
     vpc_name = py_or truthy_str (get c ''vpc_name'') ''eks-vpc'',
     vpc_cidr = py_or truthy_str (get c ''vpc_cidr'') ''10.0.0.0/16'',
     availability_zones =
       py_or truthy_list (get_object c ''availability_zones'') [''us-east-1a'', ''us-east-1b''],
     private_subnet_1_cidr = py_or truthy_str (get c ''private_subnet_1_cidr'') ''10.0.1.0/24'',
     private_subnet_2_cidr = py_or truthy_str (get c ''private_subnet_2_cidr'') ''10.0.2.0/24'',
     public_subnet_1_cidr = py_or truthy_str (get c ''public_subnet_1_cidr'') ''10.0.101.0/24'',
     public_subnet_2_cidr = py_or truthy_str (get c ''public_subnet_2_cidr'') ''10.0.102.0/24'',
     cluster_name = py_or truthy_str (get c ''cluster_name'') ''eks-cluster'',
     cluster_version = py_or truthy_str (get c ''cluster_version'') ''1.28'',
     cluster_role_name = py_or truthy_str (get c ''cluster_role_name'') ''eks-cluster-role'',
     node_group_name = py_or truthy_str (get c ''node_group_name'') ''eks-node-group'',
     node_desired_count = py_or truthy_int (get_int c ''node_desired_count'') 2,
     node_min_count = py_or truthy_int (get_int c ''node_min_count'') 1,
     node_max_count = py_or truthy_int (get_int c ''node_max_count'') 4,
     node_instance_type = py_or truthy_str (get c ''node_instance_type'') ''t3.medium'',
     node_role_name = py_or truthy_str (get c ''node_role_name'') ''eks-node-role'',
     aws_region = py_or truthy_str (get c ''aws_region'') ''us-east-1'',
     common_tags = [
       (''Environment'', py_or truthy_str (get c ''environment'') ''dev''),
       (''Project'', py_or truthy_str (get c ''project'') ''eks-project''),
       (''CreatedBy'', ''Pulumi'')]
   \<rparr>"

section \<open>hpa.py: the module's settings\<close>

record hpa_globals =
  enable_hpa :: bool
  hpa_min_replicas :: int
  hpa_max_replicas :: int
  hpa_cpu_threshold :: int
  hpa_memory_threshold :: int
  demo_namespace :: string
  demo_app_name :: string
  demo_app_image :: string
  demo_app_replicas :: int
  demo_app_port :: int

definition hpa_module :: "config \<Rightarrow> hpa_globals" where
  "hpa_module c = \<lparr>
     enable_hpa = py_or truthy_bool (get_bool c ''enable_hpa'') True,
     hpa_min_replicas = py_or truthy_int (get_int c ''hpa_min_replicas'') 2,
     hpa_max_replicas = py_or truthy_int (get_int c ''hpa_max_replicas'') 10,
     hpa_cpu_threshold = py_or truthy_int (get_int c ''hpa_cpu_threshold'') 70,
     hpa_memory_threshold = py_or truthy_int (get_int c ''hpa_memory_threshold'') 80,
     demo_namespace = py_or truthy_str (get c ''demo_namespace'') ''default'',
     demo_app_name = py_or truthy_str (get c ''demo_app_name'') ''demo-app'',
     demo_app_image = py_or truthy_str (get c ''demo_app_image'') ''nginx:latest'',
     demo_app_replicas = py_or truthy_int (get_int c ''demo_app_replicas'') 2,
     demo_app_port = py_or truthy_int (get_int c ''demo_app_port'') 80
   \<rparr>"

text \<open>The constant dictionary \<open>common_tags\<close> of hpa.py.\<close>

definition hpa_common_tags :: pdict where
  "hpa_common_tags = [(''ManagedBy'', PStr ''Pulumi''), (''Component'', PStr ''HPA'')]"

section \<open>__main__.py: the network\<close>

text \<open>
  Each declaration of the main program, under the name of the variable it is bound
  to. \<open>tags g extra\<close> is the display \<open>{**common_tags, ...}\<close>; the values of
  \<open>common_tags\<close> are strings.
\<close>

definition tags :: "config_globals \<Rightarrow> pdict \<Rightarrow> pvalue" where
  "tags g extra = PDict (dict_display (map (\<lambda>(k, v). (k, PStr v)) (common_tags g) @ extra))"

definition vpc :: "config_globals \<Rightarrow> resource" where
  "vpc g = \<lparr> rvar = ''vpc'', rkind = Vpc, rname = vpc_name g,
     rargs = [
       (''cidr_block'', PStr (vpc_cidr g)),
       (''enable_dns_hostnames'', PBool True),
       (''enable_dns_support'', PBool True),
       (''tags'', tags g [(''Name'', PStr (vpc_name g))])],
     rdepends_on = [], rprovider = None \<rparr>"

definition igw :: "config_globals \<Rightarrow> resource" where
  "igw g = \<lparr> rvar = ''igw'', rkind = InternetGateway, rname = ''eks-igw'',
     rargs = [
       (''vpc_id'', PRef ''vpc'' ''id''),
       (''tags'', tags g [(''Name'', PStr ''eks-igw'')])],
     rdepends_on = [], rprovider = None \<rparr>"

definition public_subnet_1 :: "config_globals \<Rightarrow> error + resource" where
  "public_subnet_1 g =
     (case py_index (availability_zones g) 0 of
        Inl e \<Rightarrow> Inl e
      | Inr zone \<Rightarrow> Inr \<lparr> rvar = ''public_subnet_1'', rkind = Subnet,
          rname = ''eks-public-subnet-1'',
          rargs = [
            (''vpc_id'', PRef ''vpc'' ''id''),
            (''cidr_block'', PStr (public_subnet_1_cidr g)),
            (''availability_zone'', PStr zone),
            (''map_public_ip_on_launch'', PBool True),
            (''tags'', tags g [(''Name'', PStr ''eks-public-subnet-1''),
                               (''Type'', PStr ''Public'')])],
          rdepends_on = [], rprovider = None \<rparr>)"

definition public_subnet_2 :: "config_globals \<Rightarrow> error + resource" where
  "public_subnet_2 g =
     (case py_index (availability_zones g) 1 of
        Inl e \<Rightarrow> Inl e
      | Inr zone \<Rightarrow> Inr \<lparr> rvar = ''public_subnet_2'', rkind = Subnet,
          rname = ''eks-public-subnet-2'',
          rargs = [
            (''vpc_id'', PRef ''vpc'' ''id''),
            (''cidr_block'', PStr (public_subnet_2_cidr g)),
            (''availability_zone'', PStr zone),
            (''map_public_ip_on_launch'', PBool True),
            (''tags'', tags g [(''Name'', PStr ''eks-public-subnet-2''),
                               (''Type'', PStr ''Public'')])],
          rdepends_on = [], rprovider = None \<rparr>)"

definition private_subnet_1 :: "config_globals \<Rightarrow> error + resource" where
  "private_subnet_1 g =
     (case py_index (availability_zones g) 0 of
        Inl e \<Rightarrow> Inl e
      | Inr zone \<Rightarrow> Inr \<lparr> rvar = ''private_subnet_1'', rkind = Subnet,
          rname = ''eks-private-subnet-1'',
          rargs = [
            (''vpc_id'', PRef ''vpc'' ''id''),
            (''cidr_block'', PStr (private_subnet_1_cidr g)),
            (''availability_zone'', PStr zone),
            (''tags'', tags g [(''Name'', PStr ''eks-private-subnet-1''),
                               (''Type'', PStr ''Private'')])],
          rdepends_on = [], rprovider = None \<rparr>)"

definition private_subnet_2 :: "config_globals \<Rightarrow> error + resource" where
  "private_subnet_2 g =
     (case py_index (availability_zones g) 1 of
        Inl e \<Rightarrow> Inl e
      | Inr zone \<Rightarrow> Inr \<lparr> rvar = ''private_subnet_2'', rkind = Subnet,
          rname = ''eks-private-subnet-2'',
          rargs = [
            (''vpc_id'', PRef ''vpc'' ''id''),
            (''cidr_block'', PStr (private_subnet_2_cidr g)),
            (''availability_zone'', PStr zone),
            (''tags'', tags g [(''Name'', PStr ''eks-private-subnet-2''),
                               (''Type'', PStr ''Private'')])],
          rdepends_on = [], rprovider = None \<rparr>)"

definition eip_1 :: "config_globals \<Rightarrow> resource" where
  "eip_1 g = \<lparr> rvar = ''eip_1'', rkind = Eip, rname = ''eks-eip-1'',
     rargs = [
       (''vpc'', PBool True),
       (''tags'', tags g [(''Name'', PStr ''eks-eip-1'')])],
     rdepends_on = [], rprovider = None \<rparr>"

definition eip_2 :: "config_globals \<Rightarrow> resource" where
  "eip_2 g = \<lparr> rvar = ''eip_2'', rkind = Eip, rname = ''eks-eip-2'',
     rargs = [
       (''vpc'', PBool True),
       (''tags'', tags g [(''Name'', PStr ''eks-eip-2'')])],
     rdepends_on = [], rprovider = None \<rparr>"

definition nat_gateway_1 :: "config_globals \<Rightarrow> resource" where
  "nat_gateway_1 g = \<lparr> rvar = ''nat_gateway_1'', rkind = NatGateway,
     rname = ''eks-nat-gateway-1'',
     rargs = [
       (''subnet_id'', PRef ''public_subnet_1'' ''id''),
       (''allocation_id'', PRef ''eip_1'' ''id''),
       (''tags'', tags g [(''Name'', PStr ''eks-nat-gateway-1'')])],
     rdepends_on = [''igw''], rprovider = None \<rparr>"

definition nat_gateway_2 :: "config_globals \<Rightarrow> resource" where
  "nat_gateway_2 g = \<lparr> rvar = ''nat_gateway_2'', rkind = NatGateway,
     rname = ''eks-nat-gateway-2'',
     rargs = [
       (''subnet_id'', PRef ''public_subnet_2'' ''id''),
       (''allocation_id'', PRef ''eip_2'' ''id''),
       (''tags'', tags g [(''Name'', PStr ''eks-nat-gateway-2'')])],
     rdepends_on = [''igw''], rprovider = None \<rparr>"

definition public_route_table :: "config_globals \<Rightarrow> resource" where
  "public_route_table g = \<lparr> rvar = ''public_route_table'', rkind = RouteTable,
     rname = ''eks-public-rt'',
     rargs = [
       (''vpc_id'', PRef ''vpc'' ''id''),
       (''routes'', PList [PDict [
          (''cidr_block'', PStr ''0.0.0.0/0''),
          (''gateway_id'', PRef ''igw'' ''id'')]]),
       (''tags'', tags g [(''Name'', PStr ''eks-public-rt'')])],
     rdepends_on = [], rprovider = None \<rparr>"

definition public_route_table_assoc_1 :: resource where
  "public_route_table_assoc_1 = \<lparr> rvar = ''public_route_table_assoc_1'',
     rkind = RouteTableAssociation, rname = ''eks-public-rta-1'',
     rargs = [
       (''subnet_id'', PRef ''public_subnet_1'' ''id''),
       (''route_table_id'', PRef ''public_route_table'' ''id'')],
     rdepends_on = [], rprovider = None \<rparr>"

definition public_route_table_assoc_2 :: resource where
  "public_route_table_assoc_2 = \<lparr> rvar = ''public_route_table_assoc_2'',
     rkind = RouteTableAssociation, rname = ''eks-public-rta-2'',
     rargs = [
       (''subnet_id'', PRef ''public_subnet_2'' ''id''),
       (''route_table_id'', PRef ''public_route_table'' ''id'')],
     rdepends_on = [], rprovider = None \<rparr>"

definition private_route_table_1 :: "config_globals \<Rightarrow> resource" where
  "private_route_table_1 g = \<lparr> rvar = ''private_route_table_1'', rkind = RouteTable,
     rname = ''eks-private-rt-1'',
     rargs = [
       (''vpc_id'', PRef ''vpc'' ''id''),
       (''routes'', PList [PDict [
          (''cidr_block'', PStr ''0.0.0.0/0''),
          (''nat_gateway_id'', PRef ''nat_gateway_1'' ''id'')]]),
       (''tags'', tags g [(''Name'', PStr ''eks-private-rt-1'')])],
     rdepends_on = [], rprovider = None \<rparr>"

definition private_route_table_2 :: "config_globals \<Rightarrow> resource" where
  "private_route_table_2 g = \<lparr> rvar = ''private_route_table_2'', rkind = RouteTable,
     rname = ''eks-private-rt-2'',
     rargs = [
       (''vpc_id'', PRef ''vpc'' ''id''),
       (''routes'', PList [PDict [
          (''cidr_block'', PStr ''0.0.0.0/0''),
          (''nat_gateway_id'', PRef ''nat_gateway_2'' ''id'')]]),
       (''tags'', tags g [(''Name'', PStr ''eks-private-rt-2'')])],
     rdepends_on = [], rprovider = None \<rparr>"

definition private_route_table_assoc_1 :: resource where
  "private_route_table_assoc_1 = \<lparr> rvar = ''private_route_table_assoc_1'',
     rkind = RouteTableAssociation, rname = ''eks-private-rta-1'',
     rargs = [
       (''subnet_id'', PRef ''private_subnet_1'' ''id''),
       (''route_table_id'', PRef ''private_route_table_1'' ''id'')],
     rdepends_on = [], rprovider = None \<rparr>"

definition private_route_table_assoc_2 :: resource where
  "private_route_table_assoc_2 = \<lparr> rvar = ''private_route_table_assoc_2'',
     rkind = RouteTableAssociation, rname = ''eks-private-rta-2'',
     rargs = [
       (''subnet_id'', PRef ''private_subnet_2'' ''id''),
       (''route_table_id'', PRef ''private_route_table_2'' ''id'')],
     rdepends_on = [], rprovider = None \<rparr>"

section \<open>__main__.py: roles, security groups, cluster and node group\<close>

definition assume_role_policy :: pvalue where
  "assume_role_policy = PDict [
     (''Version'', PStr ''2012-10-17''),
     (''Statement'', PList [PDict [
        (''Action'', PStr ''sts:AssumeRole''),
        (''Effect'', PStr ''Allow''),
        (''Principal'', PDict [(''Service'', PStr ''eks.amazonaws.com'')])]])]"

definition cluster_role :: "config_globals \<Rightarrow> resource" where
  "cluster_role g = \<lparr> rvar = ''cluster_role'', rkind = Role, rname = cluster_role_name g,
     rargs = [
       (''assume_role_policy'', PJsonDumps assume_role_policy),
       (''tags'', tags g [(''Name'', PStr (cluster_role_name g))])],
     rdepends_on = [], rprovider = None \<rparr>"

definition cluster_role_policy_attachment :: resource where
  "cluster_role_policy_attachment = \<lparr> rvar = ''cluster_role_policy_attachment'',
     rkind = RolePolicyAttachment, rname = ''eks-cluster-policy'',
     rargs = [
       (''role'', PRef ''cluster_role'' ''name''),
       (''policy_arn'', PStr ''arn:aws:iam::aws:policy/AmazonEKSClusterPolicy'')],
     rdepends_on = [], rprovider = None \<rparr>"

definition cluster_role_vpc_policy_attachment :: resource where
  "cluster_role_vpc_policy_attachment = \<lparr> rvar = ''cluster_role_vpc_policy_attachment'',
     rkind = RolePolicyAttachment, rname = ''eks-cluster-vpc-policy'',
     rargs = [
       (''role'', PRef ''cluster_role'' ''name''),
       (''policy_arn'', PStr ''arn:aws:iam::aws:policy/AmazonEKSVPCResourceController'')],
     rdepends_on = [], rprovider = None \<rparr>"

definition node_assume_role_policy :: pvalue where
  "node_assume_role_policy = PDict [
     (''Version'', PStr ''2012-10-17''),
     (''Statement'', PList [PDict [
        (''Action'', PStr ''sts:AssumeRole''),
        (''Effect'', PStr ''Allow''),
        (''Principal'', PDict [(''Service'', PStr ''ec2.amazonaws.com'')])]])]"

definition node_role :: "config_globals \<Rightarrow> resource" where
  "node_role g = \<lparr> rvar = ''node_role'', rkind = Role, rname = node_role_name g,
     rargs = [
       (''assume_role_policy'', PJsonDumps node_assume_role_policy),
       (''tags'', tags g [(''Name'', PStr (node_role_name g))])],
     rdepends_on = [], rprovider = None \<rparr>"

definition node_role_policy_attachment :: resource where
  "node_role_policy_attachment = \<lparr> rvar = ''node_role_policy_attachment'',
     rkind = RolePolicyAttachment, rname = ''eks-node-policy'',
     rargs = [
       (''role'', PRef ''node_role'' ''name''),
       (''policy_arn'', PStr ''arn:aws:iam::aws:policy/AmazonEKSWorkerNodePolicy'')],
     rdepends_on = [], rprovider = None \<rparr>"

definition node_cni_policy_attachment :: resource where
  "node_cni_policy_attachment = \<lparr> rvar = ''node_cni_policy_attachment'',
     rkind = RolePolicyAttachment, rname = ''eks-cni-policy'',
     rargs = [
       (''role'', PRef ''node_role'' ''name''),
       (''policy_arn'', PStr ''arn:aws:iam::aws:policy/AmazonEKS_CNI_Policy'')],
     rdepends_on = [], rprovider = None \<rparr>"

definition node_registry_policy_attachment :: resource where
  "node_registry_policy_attachment = \<lparr> rvar = ''node_registry_policy_attachment'',
     rkind = RolePolicyAttachment, rname = ''eks-registry-policy'',
     rargs = [
       (''role'', PRef ''node_role'' ''name''),
       (''policy_arn'', PStr ''arn:aws:iam::aws:policy/AmazonEC2ContainerRegistryReadOnly'')],
     rdepends_on = [], rprovider = None \<rparr>"

definition cluster_security_group :: "config_globals \<Rightarrow> resource" where
  "cluster_security_group g = \<lparr> rvar = ''cluster_security_group'', rkind = SecurityGroup,
     rname = ''eks-cluster-sg'',
     rargs = [
       (''vpc_id'', PRef ''vpc'' ''id''),
       (''description'', PStr ''Security group for EKS cluster''),
       (''ingress'', PList [PDict [
          (''protocol'', PStr ''tcp''),
          (''from_port'', PInt 443),
          (''to_port'', PInt 443),
          (''cidr_blocks'', PList [PStr ''0.0.0.0/0''])]]),
       (''egress'', PList [PDict [
          (''protocol'', PStr ''-1''),
          (''from_port'', PInt 0),
          (''to_port'', PInt 0),
          (''cidr_blocks'', PList [PStr ''0.0.0.0/0''])]]),
       (''tags'', tags g [(''Name'', PStr ''eks-cluster-sg'')])],
     rdepends_on = [], rprovider = None \<rparr>"

definition node_security_group :: "config_globals \<Rightarrow> resource" where
  "node_security_group g = \<lparr> rvar = ''node_security_group'', rkind = SecurityGroup,
     rname = ''eks-node-sg'',
     rargs = [
       (''vpc_id'', PRef ''vpc'' ''id''),
       (''description'', PStr ''Security group for EKS worker nodes''),
       (''ingress'', PList [
          PDict [
            (''protocol'', PStr ''tcp''),
            (''from_port'', PInt 1025),
            (''to_port'', PInt 65535),
            (''security_groups'', PList [PRef ''cluster_security_group'' ''id''])],
          PDict [
            (''protocol'', PStr ''tcp''),
            (''from_port'', PInt 443),
            (''to_port'', PInt 443),
            (''security_groups'', PList [PRef ''cluster_security_group'' ''id''])]]),
       (''egress'', PList [PDict [
          (''protocol'', PStr ''-1''),
          (''from_port'', PInt 0),
          (''to_port'', PInt 0),
          (''cidr_blocks'', PList [PStr ''0.0.0.0/0''])]]),
       (''tags'', tags g [(''Name'', PStr ''eks-node-sg'')])],
     rdepends_on = [], rprovider = None \<rparr>"

definition eks_cluster :: "config_globals \<Rightarrow> resource" where
  "eks_cluster g = \<lparr> rvar = ''eks_cluster'', rkind = Cluster, rname = cluster_name g,
     rargs = [
       (''version'', PStr (cluster_version g)),
       (''role_arn'', PRef ''cluster_role'' ''arn''),
       (''vpc_config'', PDict [
          (''subnet_ids'', PList [
             PRef ''public_subnet_1'' ''id'',
             PRef ''public_subnet_2'' ''id'',
             PRef ''private_subnet_1'' ''id'',
             PRef ''private_subnet_2'' ''id'']),
          (''security_group_ids'', PList [PRef ''cluster_security_group'' ''id'']),
          (''endpoint_private_access'', PBool True),
          (''endpoint_public_access'', PBool True)]),
       (''tags'', tags g [(''Name'', PStr (cluster_name g))])],
     rdepends_on = [], rprovider = None \<rparr>"

definition node_group :: "config_globals \<Rightarrow> resource" where
  "node_group g = \<lparr> rvar = ''node_group'', rkind = NodeGroup, rname = node_group_name g,
     rargs = [
       (''cluster_name'', PRef ''eks_cluster'' ''name''),
       (''node_group_name'', PStr (node_group_name g)),
       (''node_role_arn'', PRef ''node_role'' ''arn''),
       (''subnet_ids'', PList [
          PRef ''private_subnet_1'' ''id'',
          PRef ''private_subnet_2'' ''id'']),
       (''scaling_config'', PDict [
          (''desired_size'', PInt (node_desired_count g)),
          (''max_size'', PInt (node_max_count g)),
          (''min_size'', PInt (node_min_count g))]),
       (''instance_types'', PList [PStr (node_instance_type g)]),
       (''tags'', tags g [(''Name'', PStr (node_group_name g))])],
     rdepends_on = [], rprovider = None \<rparr>"

section \<open>__main__.py: the program\<close>

text \<open>
  The declarations run top to bottom, each constructor registering its resource; the
  exports follow. \<open>main_declarations\<close> lists the declarations in source order and
  \<open>main_outputs\<close> the calls of \<open>pulumi.export\<close>. The only statements that can raise
  are the four subnet declarations, which index \<open>availability_zones\<close>; a raise ends
  the program with that error.
\<close>

definition register_all :: "resource list \<Rightarrow> program_state \<Rightarrow> program_state" where
  "register_all rs st = foldl (\<lambda>st r. register r st) st rs"

definition main_declarations ::
  "config_globals \<Rightarrow> resource \<Rightarrow> resource \<Rightarrow> resource \<Rightarrow> resource \<Rightarrow> resource list" where
  "main_declarations g pub1 pub2 priv1 priv2 = [
     vpc g, igw g, pub1, pub2, priv1, priv2,
     eip_1 g, eip_2 g, nat_gateway_1 g, nat_gateway_2 g,
     public_route_table g, public_route_table_assoc_1, public_route_table_assoc_2,
     private_route_table_1 g, private_route_table_2 g,
     private_route_table_assoc_1, private_route_table_assoc_2,
     cluster_role g, cluster_role_policy_attachment, cluster_role_vpc_policy_attachment,
     node_role g, node_role_policy_attachment, node_cni_policy_attachment,
     node_registry_policy_attachment,
     cluster_security_group g, node_security_group g,
     eks_cluster g, node_group g]"

definition main_outputs :: pdict where
  "main_outputs = [
     (''vpc_id'', PRef ''vpc'' ''id''),
     (''vpc_cidr'', PRef ''vpc'' ''cidr_block''),
     (''cluster_name'', PRef ''eks_cluster'' ''name''),
     (''cluster_endpoint'', PRef ''eks_cluster'' ''endpoint''),
     (''cluster_version'', PRef ''eks_cluster'' ''version''),
     (''cluster_arn'', PRef ''eks_cluster'' ''arn''),
     (''node_group_id'', PRef ''node_group'' ''id''),
     (''public_subnet_1_id'', PRef ''public_subnet_1'' ''id''),
     (''public_subnet_2_id'', PRef ''public_subnet_2'' ''id''),
     (''private_subnet_1_id'', PRef ''private_subnet_1'' ''id''),
     (''private_subnet_2_id'', PRef ''private_subnet_2'' ''id'')]"

definition export_all :: "pdict \<Rightarrow> program_state \<Rightarrow> program_state" where
  "export_all kvs st = foldl (\<lambda>st (k, v). pulumi_export k v st) st kvs"

definition main_program :: "config_globals \<Rightarrow> error + program_state" where
  "main_program g =
     and_then (public_subnet_1 g) (\<lambda>pub1.
     and_then (public_subnet_2 g) (\<lambda>pub2.
     and_then (private_subnet_1 g) (\<lambda>priv1.
     and_then (private_subnet_2 g) (\<lambda>priv2.
       Inr (export_all main_outputs
         (register_all (main_declarations g pub1 pub2 priv1 priv2) initial_state))))))"

section \<open>hpa.py: the functions\<close>

text \<open>
  The functions read the module's settings \<open>s\<close>, take the provider object (the
  variable it is bound to) and pass the program state along. Each declaration is given
  under the name of the local variable it is bound to, with the suffix \<open>_decl\<close>; the
  function that makes it registers it and, where the source returns the object, returns
  it. \<open>create_hpa\<close>
  returns \<open>None\<close> when the autoscaler is switched off.
\<close>

definition metrics_chart_decl :: "string \<Rightarrow> resource" where
  "metrics_chart_decl provider = \<lparr> rvar = ''metrics_chart'', rkind = Chart,
     rname = ''metrics-server'',
     rargs = [
       (''chart'', PStr ''metrics-server''),
       (''namespace'', PStr ''kube-system''),
       (''values'', PDict [(''args'', PList [
          PStr ''--kubelet-insecure-tls'',
          PStr ''--kubelet-preferred-address-types=InternalIP''])]),
       (''repo'', PStr ''https://kubernetes-sigs.github.io/metrics-server/charts'')],
     rdepends_on = [], rprovider = Some provider \<rparr>"

definition create_metrics_server :: "hpa_globals \<Rightarrow> string \<Rightarrow> program_state \<Rightarrow> program_state" where
  "create_metrics_server s provider st =
     (if enable_hpa s then
        pulumi_export ''metrics_server_chart'' (PRef (rvar (metrics_chart_decl provider)) ''id'')
          (register (metrics_chart_decl provider) st)
      else st)"

definition app_labels :: "hpa_globals \<Rightarrow> pdict" where
  "app_labels s = dict_display ((''app'', PStr (demo_app_name s)) # hpa_common_tags)"

definition deployment_decl :: "hpa_globals \<Rightarrow> string \<Rightarrow> resource" where
  "deployment_decl s provider = \<lparr> rvar = ''deployment'', rkind = Deployment,
     rname = demo_app_name s,
     rargs = [
       (''metadata'', PDict [
          (''namespace'', PStr (demo_namespace s)),
          (''labels'', PDict (app_labels s))]),
       (''spec'', PDict [
          (''replicas'', PInt (demo_app_replicas s)),
          (''selector'', PDict [
             (''match_labels'', PDict [(''app'', PStr (demo_app_name s))])]),
          (''template'', PDict [
             (''metadata'', PDict [(''labels'', PDict (app_labels s))]),
             (''spec'', PDict [(''containers'', PList [PDict [
                (''name'', PStr (demo_app_name s)),
                (''image'', PStr (demo_app_image s)),
                (''ports'', PList [PDict [(''container_port'', PInt (demo_app_port s))]]),
                (''resources'', PDict [
                   (''requests'', PDict [
                      (''cpu'', PStr ''100m''), (''memory'', PStr ''128Mi'')]),
                   (''limits'', PDict [
                      (''cpu'', PStr ''500m''), (''memory'', PStr ''512Mi'')])])]])])])])],
     rdepends_on = [], rprovider = Some provider \<rparr>"

definition create_demo_deployment ::
  "hpa_globals \<Rightarrow> string \<Rightarrow> program_state \<Rightarrow> resource \<times> program_state" where
  "create_demo_deployment s provider st =
     (deployment_decl s provider, register (deployment_decl s provider) st)"

definition service_decl :: "hpa_globals \<Rightarrow> string \<Rightarrow> resource" where
  "service_decl s provider = \<lparr> rvar = ''service'', rkind = Service,
     rname = demo_app_name s @ ''-service'',
     rargs = [
       (''metadata'', PDict [
          (''namespace'', PStr (demo_namespace s)),
          (''labels'', PDict [(''app'', PStr (demo_app_name s))])]),
       (''spec'', PDict [
          (''selector'', PDict [(''app'', PStr (demo_app_name s))]),
          (''ports'', PList [PDict [
             (''port'', PInt 80), (''target_port'', PInt (demo_app_port s))]]),
          (''type'', PStr ''LoadBalancer'')])],
     rdepends_on = [], rprovider = Some provider \<rparr>"

definition create_demo_service ::
  "hpa_globals \<Rightarrow> string \<Rightarrow> program_state \<Rightarrow> resource \<times> program_state" where
  "create_demo_service s provider st = (service_decl s provider, register (service_decl s provider) st)"

definition hpa_decl :: "hpa_globals \<Rightarrow> resource \<Rightarrow> string \<Rightarrow> resource" where
  "hpa_decl s deployment provider = \<lparr> rvar = ''hpa'', rkind = HorizontalPodAutoscaler,
     rname = demo_app_name s @ ''-hpa'',
     rargs = [
       (''metadata'', PDict [
          (''namespace'', PStr (demo_namespace s)),
          (''labels'', PDict [(''app'', PStr (demo_app_name s))])]),
       (''spec'', PDict [
          (''scale_target_ref'', PDict [
             (''apiVersion'', PStr ''apps/v1''),
             (''kind'', PStr ''Deployment''),
             (''name'', PRef (rvar deployment) ''metadata.name'')]),
          (''min_replicas'', PInt (hpa_min_replicas s)),
          (''max_replicas'', PInt (hpa_max_replicas s)),
          (''metrics'', PList [
             PDict [
               (''type'', PStr ''Resource''),
               (''resource'', PDict [
                  (''name'', PStr ''cpu''),
                  (''target'', PDict [
                     (''type'', PStr ''Utilization''),
                     (''averageUtilization'', PInt (hpa_cpu_threshold s))])])],
             PDict [
               (''type'', PStr ''Resource''),
               (''resource'', PDict [
                  (''name'', PStr ''memory''),
                  (''target'', PDict [
                     (''type'', PStr ''Utilization''),
                     (''averageUtilization'', PInt (hpa_memory_threshold s))])])]])])],
     rdepends_on = [rvar deployment], rprovider = Some provider \<rparr>"

definition create_hpa ::
  "hpa_globals \<Rightarrow> resource \<Rightarrow> string \<Rightarrow> program_state \<Rightarrow> resource option \<times> program_state" where
  "create_hpa s deployment provider st =
     (if \<not> enable_hpa s then (None, st)
      else (Some (hpa_decl s deployment provider), register (hpa_decl s deployment provider) st))"

text \<open>
  \<open>hpa.metadata['name']\<close> raises AttributeError when \<open>hpa\<close> is \<open>None\<close>; the two
  entries before it in the returned display read outputs of objects that are never
  \<open>None\<close>.
\<close>

definition setup_hpa_infrastructure ::
  "hpa_globals \<Rightarrow> string \<Rightarrow> program_state \<Rightarrow> error + (pdict \<times> program_state)" where
  "setup_hpa_infrastructure s provider st =
     (if \<not> enable_hpa s then
        Inr ([], pulumi_info ''HPA is disabled. Skipping HPA setup.'' st)
      else
        let st1 = create_metrics_server s provider st;
            (deployment, st2) = create_demo_deployment s provider st1;
            (service, st3) = create_demo_service s provider st2;
            (hpa, st4) = create_hpa s deployment provider st3
        in case hpa of
             None \<Rightarrow> Inl AttributeError
           | Some h \<Rightarrow> Inr (dict_display [
               (''deployment_name'', PRef (rvar deployment) ''metadata.name''),
               (''service_name'', PRef (rvar service) ''metadata.name''),
               (''hpa_name'', PRef (rvar h) ''metadata.name''),
               (''hpa_min_replicas'', PInt (hpa_min_replicas s)),
               (''hpa_max_replicas'', PInt (hpa_max_replicas s)),
               (''hpa_cpu_threshold'', PInt (hpa_cpu_threshold s)),
               (''hpa_memory_threshold'', PInt (hpa_memory_threshold s))], st4))"

section \<open>Properties of a set of declarations\<close>

text \<open>The \<open>Type\<close> tag of a subnet tells the public subnets from the private ones.\<close>

definition subnet_type :: "resource \<Rightarrow> pvalue option" where
  "subnet_type r = (case arg r ''tags'' of Some (PDict t) \<Rightarrow> dict_get t ''Type'' | _ \<Rightarrow> None)"

definition is_public_subnet :: "resource \<Rightarrow> bool" where
  "is_public_subnet r = (rkind r = Subnet \<and> subnet_type r = Some (PStr ''Public''))"

definition is_private_subnet :: "resource \<Rightarrow> bool" where
  "is_private_subnet r = (rkind r = Subnet \<and> subnet_type r = Some (PStr ''Private''))"

definition of_kind :: "rkind \<Rightarrow> resource list \<Rightarrow> resource list" where
  "of_kind k rs = filter (\<lambda>r. rkind r = k) rs"

text \<open>A private route table is a route table that some private subnet is associated with.\<close>

definition private_route_tables :: "resource list \<Rightarrow> resource list" where
  "private_route_tables rs =
     filter (\<lambda>t. list_ex (\<lambda>a. arg a ''route_table_id'' = Some (PRef (rvar t) ''id'') \<and>
                    list_ex (\<lambda>s. arg a ''subnet_id'' = Some (PRef (rvar s) ''id''))
                      (filter is_private_subnet rs))
                 (of_kind RouteTableAssociation rs))
       (of_kind RouteTable rs)"

text \<open>
  The pairing of one zone: route table \<open>rt\<close> has the single route \<open>0.0.0.0/0\<close> to NAT
  gateway \<open>ngw\<close>, which sits in public subnet \<open>pub\<close>; private subnet \<open>priv\<close> is
  associated with \<open>rt\<close> by \<open>assoc\<close>; and both subnets are in \<open>zone\<close>.
\<close>

definition zone_paired ::
  "resource list \<Rightarrow> string \<Rightarrow> string \<Rightarrow> string \<Rightarrow> string \<Rightarrow> string \<Rightarrow> string \<Rightarrow> bool" where
  "zone_paired rs zone rt ngw pub priv assoc =
     (case (find_var rs rt, find_var rs ngw, find_var rs pub, find_var rs priv,
            find_var rs assoc) of
        (Some t, Some n, Some p, Some s, Some a) \<Rightarrow>
          rkind t = RouteTable \<and>
          arg t ''routes'' = Some (PList [PDict [
            (''cidr_block'', PStr ''0.0.0.0/0''), (''nat_gateway_id'', PRef ngw ''id'')]]) \<and>
          rkind n = NatGateway \<and> arg n ''subnet_id'' = Some (PRef pub ''id'') \<and>
          is_public_subnet p \<and> arg p ''availability_zone'' = Some (PStr zone) \<and>
          is_private_subnet s \<and> arg s ''availability_zone'' = Some (PStr zone) \<and>
          rkind a = RouteTableAssociation \<and>
          arg a ''subnet_id'' = Some (PRef priv ''id'') \<and>
          arg a ''route_table_id'' = Some (PRef rt ''id'')
      | _ \<Rightarrow> False)"

text \<open>
  Declaration order respects the dependencies: each declaration binds a variable not
  bound before, and every edge out of it points to a variable bound before it.
\<close>

fun declared_before :: "string list \<Rightarrow> resource list \<Rightarrow> bool" where
  "declared_before seen [] = True"
| "declared_before seen (r # rs) =
     (rvar r \<notin> set seen \<and> list_all (\<lambda>v. v \<in> set seen) (deps r) \<and>
      declared_before (rvar r # seen) rs)"

definition edges :: "resource list \<Rightarrow> (string \<times> string) set" where
  "edges rs = {(rvar r, v) | r v. r \<in> set rs \<and> v \<in> set (deps r)}"

fun position :: "resource list \<Rightarrow> string \<Rightarrow> nat" where
  "position [] v = 0"
| "position (r # rs) v = (if rvar r = v then 0 else Suc (position rs v))"

text \<open>The kinds of the resources whose outputs a declaration reads.\<close>

definition ref_kinds :: "resource list \<Rightarrow> resource \<Rightarrow> rkind option list" where
  "ref_kinds rs r = map (\<lambda>(v, a). map_option rkind (find_var rs v)) (resource_refs r)"

text \<open>Reading a nested argument by its path of keys.\<close>

fun lookup_path :: "pvalue \<Rightarrow> string list \<Rightarrow> pvalue option" where
  "lookup_path v [] = Some v"
| "lookup_path (PDict d) (k # ks) =
     (case dict_get d k of None \<Rightarrow> None | Some v \<Rightarrow> lookup_path v ks)"
| "lookup_path _ (k # ks) = None"

definition arg_path :: "resource \<Rightarrow> string list \<Rightarrow> pvalue option" where
  "arg_path r ks = lookup_path (PDict (rargs r)) ks"

definition is_ref :: "pvalue \<Rightarrow> bool" where
  "is_ref v = (case v of PRef x a \<Rightarrow> True | _ \<Rightarrow> False)"

section \<open>Stores used as examples\<close>

text \<open>The store of a user who set nothing.\<close>

definition empty_config :: config where
  "empty_config = \<lparr> get = (\<lambda>k. None), get_int = (\<lambda>k. None),
     get_bool = (\<lambda>k. None), get_object = (\<lambda>k. None) \<rparr>"

text \<open>A store with a falsy value of each type.\<close>

definition falsy_config :: config where
  "falsy_config = \<lparr>
     get = (\<lambda>k. if k = ''vpc_name'' then Some [] else None),
     get_int = (\<lambda>k. if k = ''node_min_count'' then Some 0 else None),
     get_bool = (\<lambda>k. if k = ''enable_hpa'' then Some False else None),
     get_object = (\<lambda>k. if k = ''availability_zones'' then Some [] else None) \<rparr>"

text \<open>The store in which every falsy value of \<open>c\<close> is unset.\<close>

definition unset_falsy :: "config \<Rightarrow> config" where
  "unset_falsy c = \<lparr>
     get = (\<lambda>k. case get c k of None \<Rightarrow> None
                 | Some v \<Rightarrow> if truthy_str v then Some v else None),
     get_int = (\<lambda>k. case get_int c k of None \<Rightarrow> None
                 | Some v \<Rightarrow> if truthy_int v then Some v else None),
     get_bool = (\<lambda>k. case get_bool c k of None \<Rightarrow> None
                 | Some v \<Rightarrow> if truthy_bool v then Some v else None),
     get_object = (\<lambda>k. case get_object c k of None \<Rightarrow> None
                 | Some v \<Rightarrow> if truthy_list v then Some v else None) \<rparr>"

text \<open>
  Settings of hpa.py with the autoscaler switched off. No store loads to them; they
  exercise the branches of the functions that test \<open>enable_hpa\<close>.
\<close>

definition disabled_settings :: hpa_globals where
  "disabled_settings = (hpa_module empty_config)\<lparr> enable_hpa := False \<rparr>"

section \<open>Configuration defaults\<close>

text \<open>
  C2. Every option falls back to its default when the store has no value for its key.
\<close>

theorem defaults_when_absent:
  "(get c ''vpc_name'' = None \<longrightarrow> vpc_name (config_module c) = ''eks-vpc'')
 \<and> (get c ''vpc_cidr'' = None \<longrightarrow> vpc_cidr (config_module c) = ''10.0.0.0/16'')
 \<and> (get_object c ''availability_zones'' = None \<longrightarrow>
       availability_zones (config_module c) = [''us-east-1a'', ''us-east-1b''])
 \<and> (get c ''private_subnet_1_cidr'' = None \<longrightarrow>
       private_subnet_1_cidr (config_module c) = ''10.0.1.0/24'')
 \<and> (get c ''private_subnet_2_cidr'' = None \<longrightarrow>
       private_subnet_2_cidr (config_module c) = ''10.0.2.0/24'')
 \<and> (get c ''public_subnet_1_cidr'' = None \<longrightarrow>
       public_subnet_1_cidr (config_module c) = ''10.0.101.0/24'')
 \<and> (get c ''public_subnet_2_cidr'' = None \<longrightarrow>
       public_subnet_2_cidr (config_module c) = ''10.0.102.0/24'')
 \<and> (get c ''cluster_name'' = None \<longrightarrow> cluster_name (config_module c) = ''eks-cluster'')
 \<and> (get c ''cluster_version'' = None \<longrightarrow> cluster_version (config_module c) = ''1.28'')
 \<and> (get c ''cluster_role_name'' = None \<longrightarrow>
       cluster_role_name (config_module c) = ''eks-cluster-role'')
 \<and> (get c ''node_group_name'' = None \<longrightarrow>
       node_group_name (config_module c) = ''eks-node-group'')
 \<and> (get_int c ''node_desired_count'' = None \<longrightarrow> node_desired_count (config_module c) = 2)
 \<and> (get_int c ''node_min_count'' = None \<longrightarrow> node_min_count (config_module c) = 1)
 \<and> (get_int c ''node_max_count'' = None \<longrightarrow> node_max_count (config_module c) = 4)
 \<and> (get c ''node_instance_type'' = None \<longrightarrow>
       node_instance_type (config_module c) = ''t3.medium'')
 \<and> (get c ''node_role_name'' = None \<longrightarrow> node_role_name (config_module c) = ''eks-node-role'')
 \<and> (get c ''aws_region'' = None \<longrightarrow> aws_region (config_module c) = ''us-east-1'')
 \<and> (get c ''environment'' = None \<longrightarrow>
       map_of (common_tags (config_module c)) ''Environment'' = Some ''dev'')
 \<and> (get c ''project'' = None \<longrightarrow>
       map_of (common_tags (config_module c)) ''Project'' = Some ''eks-project'')
 \<and> (get_bool c ''enable_hpa'' = None \<longrightarrow> enable_hpa (hpa_module c) = True)
 \<and> (get_int c ''hpa_min_replicas'' = None \<longrightarrow> hpa_min_replicas (hpa_module c) = 2)
 \<and> (get_int c ''hpa_max_replicas'' = None \<longrightarrow> hpa_max_replicas (hpa_module c) = 10)
 \<and> (get_int c ''hpa_cpu_threshold'' = None \<longrightarrow> hpa_cpu_threshold (hpa_module c) = 70)
 \<and> (get_int c ''hpa_memory_threshold'' = None \<longrightarrow> hpa_memory_threshold (hpa_module c) = 80)
 \<and> (get c ''demo_namespace'' = None \<longrightarrow> demo_namespace (hpa_module c) = ''default'')
 \<and> (get c ''demo_app_name'' = None \<longrightarrow> demo_app_name (hpa_module c) = ''demo-app'')
 \<and> (get c ''demo_app_image'' = None \<longrightarrow> demo_app_image (hpa_module c) = ''nginx:latest'')
 \<and> (get_int c ''demo_app_replicas'' = None \<longrightarrow> demo_app_replicas (hpa_module c) = 2)
 \<and> (get_int c ''demo_app_port'' = None \<longrightarrow> demo_app_port (hpa_module c) = 80)"
  by (simp add: config_module_def hpa_module_def py_or_def)

theorem defaults_when_absent_witness:
  "get empty_config ''vpc_cidr'' = None
 \<and> vpc_cidr (config_module empty_config) = ''10.0.0.0/16''
 \<and> get_object empty_config ''availability_zones'' = None
 \<and> availability_zones (config_module empty_config) = [''us-east-1a'', ''us-east-1b'']
 \<and> cluster_version (config_module empty_config) = ''1.28''
 \<and> node_instance_type (config_module empty_config) = ''t3.medium''
 \<and> get_int empty_config ''node_desired_count'' = None
 \<and> node_desired_count (config_module empty_config) = 2
 \<and> get_bool empty_config ''enable_hpa'' = None
 \<and> enable_hpa (hpa_module empty_config) = True
 \<and> hpa_min_replicas (hpa_module empty_config) = 2
 \<and> hpa_max_replicas (hpa_module empty_config) = 10
 \<and> hpa_cpu_threshold (hpa_module empty_config) = 70
 \<and> hpa_memory_threshold (hpa_module empty_config) = 80
 \<and> demo_app_image (hpa_module empty_config) = ''nginx:latest''"
  using defaults_when_absent [of empty_config] by (simp add: empty_config_def)

section \<open>Falsy values\<close>

lemma py_or_unset:
  "py_or t (case x of None \<Rightarrow> None | Some v \<Rightarrow> if t v then Some v else None) d = py_or t x d"
  by (simp add: py_or_def split: option.splits)

lemma enable_hpa_always: "enable_hpa (hpa_module c)"
  by (simp add: hpa_module_def py_or_def truthy_bool_def split: option.splits)

lemma setup_enabled:
  assumes "enable_hpa s"
  shows "setup_hpa_infrastructure s p st =
     Inr ([(''deployment_name'', PRef ''deployment'' ''metadata.name''),
           (''service_name'', PRef ''service'' ''metadata.name''),
           (''hpa_name'', PRef ''hpa'' ''metadata.name''),
           (''hpa_min_replicas'', PInt (hpa_min_replicas s)),
           (''hpa_max_replicas'', PInt (hpa_max_replicas s)),
           (''hpa_cpu_threshold'', PInt (hpa_cpu_threshold s)),
           (''hpa_memory_threshold'', PInt (hpa_memory_threshold s))],
          \<lparr> resources = resources st @
              [metrics_chart_decl p, deployment_decl s p, service_decl s p,
               hpa_decl s (deployment_decl s p) p],
            exports = dict_set (exports st) ''metrics_server_chart''
              (PRef ''metrics_chart'' ''id''),
            messages = messages st \<rparr>)"
proof -
  have v: "rvar (metrics_chart_decl p) = ''metrics_chart''"
    "rvar (deployment_decl s p) = ''deployment''"
    "rvar (service_decl s p) = ''service''"
    "rvar (hpa_decl s (deployment_decl s p) p) = ''hpa''"
    by (simp_all add: metrics_chart_decl_def deployment_decl_def service_decl_def hpa_decl_def)
  show ?thesis
    using assms
    by (simp add: setup_hpa_infrastructure_def create_hpa_def create_demo_service_def
        create_demo_deployment_def create_metrics_server_def v dict_display_def
        register_def pulumi_export_def)
qed

text \<open>
  C3. A falsy value is read as an absent one: unsetting every falsy value of a store
  changes nothing in the settings of either module, and a supplied \<open>False\<close>, \<open>0\<close> or
  empty string gives the default. So \<open>enable_hpa\<close> is true for every store,
  \<open>node_min_count\<close> is never 0, and \<open>setup_hpa_infrastructure\<close> never takes its
  disabled branch, which returns the empty mapping.
\<close>

theorem falsy_is_absent:
  "config_module (unset_falsy c) = config_module c
 \<and> hpa_module (unset_falsy c) = hpa_module c
 \<and> (get_bool c ''enable_hpa'' = Some False \<longrightarrow> enable_hpa (hpa_module c) = True)
 \<and> (get_int c ''node_min_count'' = Some 0 \<longrightarrow> node_min_count (config_module c) = 1)
 \<and> (get c ''vpc_name'' = Some [] \<longrightarrow> vpc_name (config_module c) = ''eks-vpc'')
 \<and> enable_hpa (hpa_module c) = True
 \<and> node_min_count (config_module c) \<noteq> 0
 \<and> (\<exists>d st'. setup_hpa_infrastructure (hpa_module c) p st = Inr (d, st') \<and> d \<noteq> [])"
proof -
  have 1: "config_module (unset_falsy c) = config_module c"
    by (simp add: config_module_def unset_falsy_def py_or_unset)
  have 2: "hpa_module (unset_falsy c) = hpa_module c"
    by (simp add: hpa_module_def unset_falsy_def py_or_unset)
  have 3: "enable_hpa (hpa_module c) = True"
    by (simp add: enable_hpa_always)
  have 4: "node_min_count (config_module c) \<noteq> 0"
    by (simp add: config_module_def py_or_def truthy_int_def split: option.splits)
  have 5: "\<exists>d st'. setup_hpa_infrastructure (hpa_module c) p st = Inr (d, st') \<and> d \<noteq> []"
    using setup_enabled [OF enable_hpa_always, of c p st] by simp
  have 6: "get_bool c ''enable_hpa'' = Some False \<longrightarrow> enable_hpa (hpa_module c) = True"
    by (simp add: 3)
  have 7: "get_int c ''node_min_count'' = Some 0 \<longrightarrow> node_min_count (config_module c) = 1"
    by (simp add: config_module_def py_or_def truthy_int_def)
  have 8: "get c ''vpc_name'' = Some [] \<longrightarrow> vpc_name (config_module c) = ''eks-vpc''"
    by (simp add: config_module_def py_or_def truthy_str_def)
  from 1 2 6 7 8 3 4 5 show ?thesis by (intro conjI)
qed

theorem falsy_is_absent_witness:
  "get_bool falsy_config ''enable_hpa'' = Some False
 \<and> enable_hpa (hpa_module falsy_config) = True
 \<and> get_int falsy_config ''node_min_count'' = Some 0
 \<and> node_min_count (config_module falsy_config) = 1
 \<and> get falsy_config ''vpc_name'' = Some ''''
 \<and> vpc_name (config_module falsy_config) = ''eks-vpc''
 \<and> config_module falsy_config = config_module empty_config
 \<and> hpa_module falsy_config = hpa_module empty_config"
  using falsy_is_absent [of falsy_config]
  by (simp add: falsy_config_def empty_config_def config_module_def hpa_module_def py_or_def
      truthy_int_def truthy_str_def truthy_list_def truthy_bool_def)

section \<open>The autoscaler\<close>

text \<open>
  C5. When the autoscaler is enabled, \<open>create_hpa\<close> declares a HorizontalPodAutoscaler
  whose \<open>min_replicas\<close> and \<open>max_replicas\<close> are the settings \<open>hpa_min_replicas\<close> and
  \<open>hpa_max_replicas\<close>, whose metrics are exactly two Resource metrics, the first on
  cpu with average utilization \<open>hpa_cpu_threshold\<close> and the second on memory with
  average utilization \<open>hpa_memory_threshold\<close>, and whose scale target is the name of
  the deployment passed in.
\<close>

theorem create_hpa_spec:
  assumes "enable_hpa s"
  shows "\<exists>h m1 m2. create_hpa s deployment p st = (Some h, register h st)
     \<and> rkind h = HorizontalPodAutoscaler
     \<and> arg_path h [''spec'', ''min_replicas''] = Some (PInt (hpa_min_replicas s))
     \<and> arg_path h [''spec'', ''max_replicas''] = Some (PInt (hpa_max_replicas s))
     \<and> arg_path h [''spec'', ''metrics''] = Some (PList [m1, m2])
     \<and> lookup_path m1 [''type''] = Some (PStr ''Resource'')
     \<and> lookup_path m1 [''resource'', ''name''] = Some (PStr ''cpu'')
     \<and> lookup_path m1 [''resource'', ''target'', ''type''] = Some (PStr ''Utilization'')
     \<and> lookup_path m1 [''resource'', ''target'', ''averageUtilization'']
          = Some (PInt (hpa_cpu_threshold s))
     \<and> lookup_path m2 [''type''] = Some (PStr ''Resource'')
     \<and> lookup_path m2 [''resource'', ''name''] = Some (PStr ''memory'')
     \<and> lookup_path m2 [''resource'', ''target'', ''type''] = Some (PStr ''Utilization'')
     \<and> lookup_path m2 [''resource'', ''target'', ''averageUtilization'']
          = Some (PInt (hpa_memory_threshold s))
     \<and> arg_path h [''spec'', ''scale_target_ref'', ''kind''] = Some (PStr ''Deployment'')
     \<and> arg_path h [''spec'', ''scale_target_ref'', ''name'']
          = Some (PRef (rvar deployment) ''metadata.name'')
     \<and> rdepends_on h = [rvar deployment]"
  using assms by (simp add: create_hpa_def hpa_decl_def arg_path_def)

theorem create_hpa_spec_witness:
  "enable_hpa (hpa_module empty_config)
 \<and> (\<exists>h. fst (create_hpa (hpa_module empty_config)
             (fst (create_demo_deployment (hpa_module empty_config) ''provider'' initial_state))
             ''provider'' initial_state) = Some h
     \<and> arg_path h [''spec'', ''min_replicas''] = Some (PInt 2)
     \<and> arg_path h [''spec'', ''max_replicas''] = Some (PInt 10)
     \<and> arg_path h [''spec'', ''scale_target_ref'', ''name'']
          = Some (PRef ''deployment'' ''metadata.name''))"
proof -
  have e: "enable_hpa (hpa_module empty_config)" by (rule enable_hpa_always)
  have v: "hpa_min_replicas (hpa_module empty_config) = 2"
    "hpa_max_replicas (hpa_module empty_config) = 10"
    by (simp_all add: hpa_module_def empty_config_def py_or_def)
  have d: "rvar (fst (create_demo_deployment (hpa_module empty_config) ''provider''
      initial_state)) = ''deployment''"
    by (simp add: create_demo_deployment_def deployment_decl_def)
  from create_hpa_spec [OF e, of
      "fst (create_demo_deployment (hpa_module empty_config) ''provider'' initial_state)"
      "''provider''" initial_state]
  obtain h where
    "create_hpa (hpa_module empty_config)
       (fst (create_demo_deployment (hpa_module empty_config) ''provider'' initial_state))
       ''provider'' initial_state = (Some h, register h initial_state)"
    "arg_path h [''spec'', ''min_replicas''] = Some (PInt (hpa_min_replicas (hpa_module empty_config)))"
    "arg_path h [''spec'', ''max_replicas''] = Some (PInt (hpa_max_replicas (hpa_module empty_config)))"
    "arg_path h [''spec'', ''scale_target_ref'', ''name'']
       = Some (PRef (rvar (fst (create_demo_deployment (hpa_module empty_config) ''provider''
            initial_state))) ''metadata.name'')"
    by blast
  with e v d show ?thesis by simp
qed

lemma hpa_decl_facts:
  "rvar (metrics_chart_decl p) = ''metrics_chart''" "rkind (metrics_chart_decl p) = Chart"
  "rname (metrics_chart_decl p) = ''metrics-server''" "deps (metrics_chart_decl p) = []"
  "rvar (deployment_decl s p) = ''deployment''" "rkind (deployment_decl s p) = Deployment"
  "rname (deployment_decl s p) = demo_app_name s" "deps (deployment_decl s p) = []"
  "rvar (service_decl s p) = ''service''" "rkind (service_decl s p) = Service"
  "rname (service_decl s p) = demo_app_name s @ ''-service''" "deps (service_decl s p) = []"
  "rvar (hpa_decl s d p) = ''hpa''" "rkind (hpa_decl s d p) = HorizontalPodAutoscaler"
  "rname (hpa_decl s d p) = demo_app_name s @ ''-hpa''"
  "deps (hpa_decl s d p) = [rvar d, rvar d]"
  by (simp_all add: metrics_chart_decl_def deployment_decl_def service_decl_def hpa_decl_def
      deps_def resource_refs_def app_labels_def hpa_common_tags_def dict_display_def)

lemma setup_disabled:
  assumes "\<not> enable_hpa s"
  shows "setup_hpa_infrastructure s p st =
     Inr ([], \<lparr> resources = resources st, exports = exports st,
               messages = messages st @ [''HPA is disabled. Skipping HPA setup.''] \<rparr>)"
  using assms by (simp add: setup_hpa_infrastructure_def pulumi_info_def)

text \<open>
  C6. With the autoscaler enabled, \<open>setup_hpa_infrastructure\<close> adds four resources
  to the program, in this order: the metrics-server chart, the demo deployment, the
  service that selects the deployment's pods, and the autoscaler of that deployment. It
  returns the mapping with exactly the keys \<open>deployment_name\<close>, \<open>service_name\<close>,
  \<open>hpa_name\<close> (the names of those three objects) and the four thresholds. With the
  autoscaler disabled it adds no resource, exports nothing and returns the empty
  mapping.
\<close>

theorem setup_hpa_infrastructure_spec:
  "(enable_hpa s \<longrightarrow>
      (\<exists>chart dep svc h st'.
         setup_hpa_infrastructure s p st =
           Inr ([(''deployment_name'', PRef (rvar dep) ''metadata.name''),
                 (''service_name'', PRef (rvar svc) ''metadata.name''),
                 (''hpa_name'', PRef (rvar h) ''metadata.name''),
                 (''hpa_min_replicas'', PInt (hpa_min_replicas s)),
                 (''hpa_max_replicas'', PInt (hpa_max_replicas s)),
                 (''hpa_cpu_threshold'', PInt (hpa_cpu_threshold s)),
                 (''hpa_memory_threshold'', PInt (hpa_memory_threshold s))], st')
       \<and> resources st' = resources st @ [chart, dep, svc, h]
       \<and> rkind chart = Chart \<and> rname chart = ''metrics-server''
       \<and> rkind dep = Deployment \<and> rname dep = demo_app_name s
       \<and> rkind svc = Service
       \<and> arg_path svc [''spec'', ''selector'']
            = arg_path dep [''spec'', ''selector'', ''match_labels'']
       \<and> rkind h = HorizontalPodAutoscaler
       \<and> arg_path h [''spec'', ''scale_target_ref'', ''name'']
            = Some (PRef (rvar dep) ''metadata.name'')
       \<and> distinct (map rvar [chart, dep, svc, h])))
 \<and> (\<not> enable_hpa s \<longrightarrow>
      (\<exists>st'. setup_hpa_infrastructure s p st = Inr ([], st')
       \<and> resources st' = resources st \<and> exports st' = exports st))"
proof (intro conjI impI)
  assume e: "enable_hpa s"
  let ?chart = "metrics_chart_decl p" and ?dep = "deployment_decl s p"
    and ?svc = "service_decl s p" and ?h = "hpa_decl s (deployment_decl s p) p"
  have a: "arg_path ?svc [''spec'', ''selector'']
            = arg_path ?dep [''spec'', ''selector'', ''match_labels'']"
    by (simp add: arg_path_def service_decl_def deployment_decl_def)
  have b: "arg_path ?h [''spec'', ''scale_target_ref'', ''name'']
            = Some (PRef (rvar ?dep) ''metadata.name'')"
    by (simp add: arg_path_def hpa_decl_def)
  show "\<exists>chart dep svc h st'.
         setup_hpa_infrastructure s p st =
           Inr ([(''deployment_name'', PRef (rvar dep) ''metadata.name''),
                 (''service_name'', PRef (rvar svc) ''metadata.name''),
                 (''hpa_name'', PRef (rvar h) ''metadata.name''),
                 (''hpa_min_replicas'', PInt (hpa_min_replicas s)),
                 (''hpa_max_replicas'', PInt (hpa_max_replicas s)),
                 (''hpa_cpu_threshold'', PInt (hpa_cpu_threshold s)),
                 (''hpa_memory_threshold'', PInt (hpa_memory_threshold s))], st')
       \<and> resources st' = resources st @ [chart, dep, svc, h]
       \<and> rkind chart = Chart \<and> rname chart = ''metrics-server''
       \<and> rkind dep = Deployment \<and> rname dep = demo_app_name s
       \<and> rkind svc = Service
       \<and> arg_path svc [''spec'', ''selector'']
            = arg_path dep [''spec'', ''selector'', ''match_labels'']
       \<and> rkind h = HorizontalPodAutoscaler
       \<and> arg_path h [''spec'', ''scale_target_ref'', ''name'']
            = Some (PRef (rvar dep) ''metadata.name'')
       \<and> distinct (map rvar [chart, dep, svc, h])"
    apply (rule exI [of _ ?chart], rule exI [of _ ?dep], rule exI [of _ ?svc],
        rule exI [of _ ?h])
    using a b by (simp add: setup_enabled [OF e] hpa_decl_facts)
next
  assume "\<not> enable_hpa s"
  then show "\<exists>st'. setup_hpa_infrastructure s p st = Inr ([], st')
       \<and> resources st' = resources st \<and> exports st' = exports st"
    by (simp add: setup_disabled)
qed

theorem setup_hpa_infrastructure_spec_witness:
  "enable_hpa (hpa_module empty_config)
 \<and> (\<exists>st'. setup_hpa_infrastructure (hpa_module empty_config) ''provider'' initial_state =
       Inr ([(''deployment_name'', PRef ''deployment'' ''metadata.name''),
             (''service_name'', PRef ''service'' ''metadata.name''),
             (''hpa_name'', PRef ''hpa'' ''metadata.name''),
             (''hpa_min_replicas'', PInt 2),
             (''hpa_max_replicas'', PInt 10),
             (''hpa_cpu_threshold'', PInt 70),
             (''hpa_memory_threshold'', PInt 80)], st')
     \<and> map rkind (resources st') = [Chart, Deployment, Service, HorizontalPodAutoscaler])
 \<and> \<not> enable_hpa disabled_settings
 \<and> (\<exists>st'. setup_hpa_infrastructure disabled_settings ''provider'' initial_state = Inr ([], st')
     \<and> resources st' = [] \<and> exports st' = [])"
proof -
  have e: "enable_hpa (hpa_module empty_config)" by (rule enable_hpa_always)
  have d: "\<not> enable_hpa disabled_settings" by (simp add: disabled_settings_def)
  have v: "hpa_min_replicas (hpa_module empty_config) = 2"
    "hpa_max_replicas (hpa_module empty_config) = 10"
    "hpa_cpu_threshold (hpa_module empty_config) = 70"
    "hpa_memory_threshold (hpa_module empty_config) = 80"
    by (simp_all add: hpa_module_def empty_config_def py_or_def)
  from setup_hpa_infrastructure_spec [of "hpa_module empty_config" "''provider''" initial_state] e
  obtain chart dep svc h st' where
    1: "setup_hpa_infrastructure (hpa_module empty_config) ''provider'' initial_state =
           Inr ([(''deployment_name'', PRef (rvar dep) ''metadata.name''),
                 (''service_name'', PRef (rvar svc) ''metadata.name''),
                 (''hpa_name'', PRef (rvar h) ''metadata.name''),
                 (''hpa_min_replicas'', PInt (hpa_min_replicas (hpa_module empty_config))),
                 (''hpa_max_replicas'', PInt (hpa_max_replicas (hpa_module empty_config))),
                 (''hpa_cpu_threshold'', PInt (hpa_cpu_threshold (hpa_module empty_config))),
                 (''hpa_memory_threshold'',
                    PInt (hpa_memory_threshold (hpa_module empty_config)))], st')"
    and 2: "resources st' = resources initial_state @ [chart, dep, svc, h]"
      "rkind chart = Chart" "rkind dep = Deployment" "rkind svc = Service"
      "rkind h = HorizontalPodAutoscaler"
    by blast
  from 1 have n: "rvar dep = ''deployment''" "rvar svc = ''service''" "rvar h = ''hpa''"
    by (simp_all add: setup_enabled [OF e])
  from setup_hpa_infrastructure_spec [of disabled_settings "''provider''" initial_state] d
  obtain st'' where
    3: "setup_hpa_infrastructure disabled_settings ''provider'' initial_state = Inr ([], st'')"
      "resources st'' = resources initial_state" "exports st'' = exports initial_state"
    by blast
  from 1 2 n v have A: "\<exists>st'. setup_hpa_infrastructure (hpa_module empty_config) ''provider'' initial_state =
       Inr ([(''deployment_name'', PRef ''deployment'' ''metadata.name''),
             (''service_name'', PRef ''service'' ''metadata.name''),
             (''hpa_name'', PRef ''hpa'' ''metadata.name''),
             (''hpa_min_replicas'', PInt 2),
             (''hpa_max_replicas'', PInt 10),
             (''hpa_cpu_threshold'', PInt 70),
             (''hpa_memory_threshold'', PInt 80)], st')
     \<and> map rkind (resources st') = [Chart, Deployment, Service, HorizontalPodAutoscaler]"
    by (simp add: initial_state_def)
  from 3 have B: "\<exists>st'. setup_hpa_infrastructure disabled_settings ''provider'' initial_state = Inr ([], st')
     \<and> resources st' = [] \<and> exports st' = []"
    by (simp add: initial_state_def)
  from e d A B show ?thesis by blast
qed

text \<open>
  C9. \<open>create_hpa\<close> returns \<open>None\<close> exactly when the autoscaler is disabled, and
  \<open>setup_hpa_infrastructure\<close> returns a result for all settings: it never raises the
  AttributeError of reading \<open>metadata\<close> from \<open>None\<close>.
\<close>

theorem setup_never_reads_None:
  "(fst (create_hpa s deployment p st) = None) = (\<not> enable_hpa s)
 \<and> (\<exists>r. setup_hpa_infrastructure s p st = Inr r)
 \<and> setup_hpa_infrastructure s p st \<noteq> Inl AttributeError"
proof -
  have 1: "(fst (create_hpa s deployment p st) = None) = (\<not> enable_hpa s)"
    by (simp add: create_hpa_def)
  have 2: "\<exists>r. setup_hpa_infrastructure s p st = Inr r"
  proof (cases "enable_hpa s")
    case True
    then show ?thesis by (simp add: setup_enabled)
  next
    case False
    then show ?thesis by (simp add: setup_disabled)
  qed
  from 2 have 3: "setup_hpa_infrastructure s p st \<noteq> Inl AttributeError" by auto
  from 1 2 3 show ?thesis by blast
qed

theorem setup_never_reads_None_witness:
  "fst (create_hpa disabled_settings (deployment_decl disabled_settings ''provider'')
      ''provider'' initial_state) = None
 \<and> (\<exists>r. setup_hpa_infrastructure disabled_settings ''provider'' initial_state = Inr r)
 \<and> fst (create_hpa (hpa_module empty_config)
      (deployment_decl (hpa_module empty_config) ''provider'') ''provider'' initial_state) \<noteq> None
 \<and> (\<exists>r. setup_hpa_infrastructure (hpa_module empty_config) ''provider'' initial_state = Inr r)"
  using setup_never_reads_None [of disabled_settings
      "deployment_decl disabled_settings ''provider''" "''provider''" initial_state]
    setup_never_reads_None [of "hpa_module empty_config"
      "deployment_decl (hpa_module empty_config) ''provider''" "''provider''" initial_state]
    enable_hpa_always [of empty_config]
  by (simp add: disabled_settings_def)

section \<open>The declarations of the main program\<close>

lemma dict_get_set: "dict_get (dict_set d k v) k' = (if k = k' then Some v else dict_get d k')"
  by (induction d k v rule: dict_set.induct) auto

lemma dict_get_append:
  "dict_get (xs @ ys) k = (case dict_get xs k of Some v \<Rightarrow> Some v | None \<Rightarrow> dict_get ys k)"
  by (induction xs) auto

lemma dict_get_merge:
  "dict_get (dict_merge a b) k =
     (case dict_get (rev b) k of Some v \<Rightarrow> Some v | None \<Rightarrow> dict_get a k)"
  by (induction a b rule: dict_merge.induct)
     (auto simp: dict_get_append dict_get_set split: option.splits)

lemma set_dict_set: "set (dict_set d k v) \<subseteq> insert (k, v) (set d)"
  by (induction d k v rule: dict_set.induct) auto

lemma set_dict_merge: "set (dict_merge a b) \<subseteq> set a \<union> set b"
proof (induction a b rule: dict_merge.induct)
  case (1 a)
  then show ?case by simp
next
  case (2 a k v b)
  with set_dict_set [of a k v] show ?case by auto
qed

text \<open>Tags hold strings only, so they read no output of another resource.\<close>

lemma refs_of_tags:
  assumes "list_all (\<lambda>(k, v). refs_of v = []) extra"
  shows "refs_of (tags g extra) = []"
proof -
  let ?d = "map (\<lambda>(k, v). (k, PStr v)) (common_tags g) @ extra"
  have "\<forall>(k, v) \<in> set ?d. refs_of v = []"
    using assms by (auto simp: list_all_iff)
  with set_dict_merge [of "[]" ?d] have "\<forall>(k, v) \<in> set (dict_merge [] ?d). refs_of v = []"
    by auto
  then show ?thesis
    by (auto simp: tags_def dict_display_def)
qed

lemma subnet_type_of_tags:
  "(case tags g [(''Name'', n), (''Type'', t)] of PDict d \<Rightarrow> dict_get d ''Type'' | _ \<Rightarrow> None)
     = Some t"
  by (simp add: tags_def dict_display_def dict_get_merge)

lemma vpc_facts:
  "rvar (vpc g) = ''vpc''" "rkind (vpc g) = Vpc" "deps (vpc g) = []"
  by (simp_all add: vpc_def deps_def resource_refs_def refs_of_tags)

lemma igw_facts:
  "rvar (igw g) = ''igw''" "rkind (igw g) = InternetGateway" "deps (igw g) = [''vpc'']"
  by (simp_all add: igw_def deps_def resource_refs_def refs_of_tags)

lemma eip_facts:
  "rvar (eip_1 g) = ''eip_1''" "rkind (eip_1 g) = Eip" "deps (eip_1 g) = []"
  "rvar (eip_2 g) = ''eip_2''" "rkind (eip_2 g) = Eip" "deps (eip_2 g) = []"
  by (simp_all add: eip_1_def eip_2_def deps_def resource_refs_def refs_of_tags)

lemma nat_gateway_facts:
  "rvar (nat_gateway_1 g) = ''nat_gateway_1''" "rkind (nat_gateway_1 g) = NatGateway"
  "resource_refs (nat_gateway_1 g) = [(''public_subnet_1'', ''id''), (''eip_1'', ''id'')]"
  "rdepends_on (nat_gateway_1 g) = [''igw'']"
  "deps (nat_gateway_1 g) = [''public_subnet_1'', ''eip_1'', ''igw'']"
  "arg (nat_gateway_1 g) ''subnet_id'' = Some (PRef ''public_subnet_1'' ''id'')"
  "rvar (nat_gateway_2 g) = ''nat_gateway_2''" "rkind (nat_gateway_2 g) = NatGateway"
  "resource_refs (nat_gateway_2 g) = [(''public_subnet_2'', ''id''), (''eip_2'', ''id'')]"
  "rdepends_on (nat_gateway_2 g) = [''igw'']"
  "deps (nat_gateway_2 g) = [''public_subnet_2'', ''eip_2'', ''igw'']"
  "arg (nat_gateway_2 g) ''subnet_id'' = Some (PRef ''public_subnet_2'' ''id'')"
  by (simp_all add: nat_gateway_1_def nat_gateway_2_def deps_def resource_refs_def
      refs_of_tags arg_def)

lemma route_table_facts:
  "rvar (public_route_table g) = ''public_route_table''"
  "rkind (public_route_table g) = RouteTable"
  "deps (public_route_table g) = [''vpc'', ''igw'']"
  "rvar (private_route_table_1 g) = ''private_route_table_1''"
  "rkind (private_route_table_1 g) = RouteTable"
  "deps (private_route_table_1 g) = [''vpc'', ''nat_gateway_1'']"
  "arg (private_route_table_1 g) ''routes'' = Some (PList [PDict [
      (''cidr_block'', PStr ''0.0.0.0/0''), (''nat_gateway_id'', PRef ''nat_gateway_1'' ''id'')]])"
  "rvar (private_route_table_2 g) = ''private_route_table_2''"
  "rkind (private_route_table_2 g) = RouteTable"
  "deps (private_route_table_2 g) = [''vpc'', ''nat_gateway_2'']"
  "arg (private_route_table_2 g) ''routes'' = Some (PList [PDict [
      (''cidr_block'', PStr ''0.0.0.0/0''), (''nat_gateway_id'', PRef ''nat_gateway_2'' ''id'')]])"
  by (simp_all add: public_route_table_def private_route_table_1_def private_route_table_2_def
      deps_def resource_refs_def refs_of_tags arg_def)

lemma association_facts:
  "rvar public_route_table_assoc_1 = ''public_route_table_assoc_1''"
  "rkind public_route_table_assoc_1 = RouteTableAssociation"
  "deps public_route_table_assoc_1 = [''public_subnet_1'', ''public_route_table'']"
  "arg public_route_table_assoc_1 ''subnet_id'' = Some (PRef ''public_subnet_1'' ''id'')"
  "arg public_route_table_assoc_1 ''route_table_id'' = Some (PRef ''public_route_table'' ''id'')"
  "rvar public_route_table_assoc_2 = ''public_route_table_assoc_2''"
  "rkind public_route_table_assoc_2 = RouteTableAssociation"
  "deps public_route_table_assoc_2 = [''public_subnet_2'', ''public_route_table'']"
  "arg public_route_table_assoc_2 ''subnet_id'' = Some (PRef ''public_subnet_2'' ''id'')"
  "arg public_route_table_assoc_2 ''route_table_id'' = Some (PRef ''public_route_table'' ''id'')"
  "rvar private_route_table_assoc_1 = ''private_route_table_assoc_1''"
  "rkind private_route_table_assoc_1 = RouteTableAssociation"
  "deps private_route_table_assoc_1 = [''private_subnet_1'', ''private_route_table_1'']"
  "arg private_route_table_assoc_1 ''subnet_id'' = Some (PRef ''private_subnet_1'' ''id'')"
  "arg private_route_table_assoc_1 ''route_table_id''
     = Some (PRef ''private_route_table_1'' ''id'')"
  "rvar private_route_table_assoc_2 = ''private_route_table_assoc_2''"
  "rkind private_route_table_assoc_2 = RouteTableAssociation"
  "deps private_route_table_assoc_2 = [''private_subnet_2'', ''private_route_table_2'']"
  "arg private_route_table_assoc_2 ''subnet_id'' = Some (PRef ''private_subnet_2'' ''id'')"
  "arg private_route_table_assoc_2 ''route_table_id''
     = Some (PRef ''private_route_table_2'' ''id'')"
  by (simp_all add: public_route_table_assoc_1_def public_route_table_assoc_2_def
      private_route_table_assoc_1_def private_route_table_assoc_2_def
      deps_def resource_refs_def arg_def)

lemma role_facts:
  "rvar (cluster_role g) = ''cluster_role''" "rkind (cluster_role g) = Role"
  "deps (cluster_role g) = []"
  "rvar cluster_role_policy_attachment = ''cluster_role_policy_attachment''"
  "rkind cluster_role_policy_attachment = RolePolicyAttachment"
  "deps cluster_role_policy_attachment = [''cluster_role'']"
  "rvar cluster_role_vpc_policy_attachment = ''cluster_role_vpc_policy_attachment''"
  "rkind cluster_role_vpc_policy_attachment = RolePolicyAttachment"
  "deps cluster_role_vpc_policy_attachment = [''cluster_role'']"
  "rvar (node_role g) = ''node_role''" "rkind (node_role g) = Role"
  "deps (node_role g) = []"
  "rvar node_role_policy_attachment = ''node_role_policy_attachment''"
  "rkind node_role_policy_attachment = RolePolicyAttachment"
  "deps node_role_policy_attachment = [''node_role'']"
  "rvar node_cni_policy_attachment = ''node_cni_policy_attachment''"
  "rkind node_cni_policy_attachment = RolePolicyAttachment"
  "deps node_cni_policy_attachment = [''node_role'']"
  "rvar node_registry_policy_attachment = ''node_registry_policy_attachment''"
  "rkind node_registry_policy_attachment = RolePolicyAttachment"
  "deps node_registry_policy_attachment = [''node_role'']"
  by (simp_all add: cluster_role_def cluster_role_policy_attachment_def
      cluster_role_vpc_policy_attachment_def node_role_def node_role_policy_attachment_def
      node_cni_policy_attachment_def node_registry_policy_attachment_def
      deps_def resource_refs_def refs_of_tags)

lemma security_group_facts:
  "rvar (cluster_security_group g) = ''cluster_security_group''"
  "rkind (cluster_security_group g) = SecurityGroup"
  "deps (cluster_security_group g) = [''vpc'']"
  "rvar (node_security_group g) = ''node_security_group''"
  "rkind (node_security_group g) = SecurityGroup"
  "deps (node_security_group g) = [''vpc'', ''cluster_security_group'', ''cluster_security_group'']"
  by (simp_all add: cluster_security_group_def node_security_group_def
      deps_def resource_refs_def refs_of_tags)

lemma cluster_facts:
  "rvar (eks_cluster g) = ''eks_cluster''" "rkind (eks_cluster g) = Cluster"
  "deps (eks_cluster g) = [''cluster_role'', ''public_subnet_1'', ''public_subnet_2'',
      ''private_subnet_1'', ''private_subnet_2'', ''cluster_security_group'']"
  "rvar (node_group g) = ''node_group''" "rkind (node_group g) = NodeGroup"
  "deps (node_group g) = [''eks_cluster'', ''node_role'', ''private_subnet_1'', ''private_subnet_2'']"
  by (simp_all add: eks_cluster_def node_group_def deps_def resource_refs_def refs_of_tags)

lemma public_subnet_1_facts:
  assumes "public_subnet_1 g = Inr r"
  shows "rvar r = ''public_subnet_1''" "rkind r = Subnet" "deps r = [''vpc'']"
    "subnet_type r = Some (PStr ''Public'')"
    "arg r ''availability_zone'' = Some (PStr (availability_zones g ! 0))"
  using assms
  by (auto simp: public_subnet_1_def py_index_def deps_def resource_refs_def refs_of_tags
      subnet_type_def arg_def subnet_type_of_tags split: if_splits)

lemma public_subnet_2_facts:
  assumes "public_subnet_2 g = Inr r"
  shows "rvar r = ''public_subnet_2''" "rkind r = Subnet" "deps r = [''vpc'']"
    "subnet_type r = Some (PStr ''Public'')"
    "arg r ''availability_zone'' = Some (PStr (availability_zones g ! 1))"
  using assms
  by (auto simp: public_subnet_2_def py_index_def deps_def resource_refs_def refs_of_tags
      subnet_type_def arg_def subnet_type_of_tags split: if_splits)

lemma private_subnet_1_facts:
  assumes "private_subnet_1 g = Inr r"
  shows "rvar r = ''private_subnet_1''" "rkind r = Subnet" "deps r = [''vpc'']"
    "subnet_type r = Some (PStr ''Private'')"
    "arg r ''availability_zone'' = Some (PStr (availability_zones g ! 0))"
  using assms
  by (auto simp: private_subnet_1_def py_index_def deps_def resource_refs_def refs_of_tags
      subnet_type_def arg_def subnet_type_of_tags split: if_splits)

lemma private_subnet_2_facts:
  assumes "private_subnet_2 g = Inr r"
  shows "rvar r = ''private_subnet_2''" "rkind r = Subnet" "deps r = [''vpc'']"
    "subnet_type r = Some (PStr ''Private'')"
    "arg r ''availability_zone'' = Some (PStr (availability_zones g ! 1))"
  using assms
  by (auto simp: private_subnet_2_def py_index_def deps_def resource_refs_def refs_of_tags
      subnet_type_def arg_def subnet_type_of_tags split: if_splits)

lemmas declaration_facts = vpc_facts igw_facts eip_facts nat_gateway_facts route_table_facts
  association_facts role_facts security_group_facts cluster_facts

lemma export_main_outputs:
  "export_all main_outputs \<lparr> resources = rs, exports = [], messages = ms \<rparr> =
     \<lparr> resources = rs, exports = main_outputs, messages = ms \<rparr>"
  by (simp add: export_all_def main_outputs_def pulumi_export_def)

lemma register_all_initial:
  "register_all rs initial_state = \<lparr> resources = rs, exports = [], messages = [] \<rparr>"
proof -
  have "\<And>st. register_all rs st = st\<lparr> resources := resources st @ rs \<rparr>"
    unfolding register_all_def
    by (induction rs) (simp_all add: register_def)
  then show ?thesis by (simp add: initial_state_def)
qed

text \<open>
  With two zones or more configured the program runs to its end; with fewer, the
  declaration of \<open>public_subnet_2\<close> raises.
\<close>

lemma main_program_runs:
  assumes "2 \<le> length (availability_zones g)"
  shows "\<exists>pub1 pub2 priv1 priv2.
     public_subnet_1 g = Inr pub1 \<and> public_subnet_2 g = Inr pub2 \<and>
     private_subnet_1 g = Inr priv1 \<and> private_subnet_2 g = Inr priv2 \<and>
     main_program g = Inr \<lparr> resources = main_declarations g pub1 pub2 priv1 priv2,
       exports = main_outputs, messages = [] \<rparr>"
proof -
  from assms have z: "0 < length (availability_zones g)" "1 < length (availability_zones g)"
    by auto
  then obtain pub1 pub2 priv1 priv2 where
    s: "public_subnet_1 g = Inr pub1" "public_subnet_2 g = Inr pub2"
       "private_subnet_1 g = Inr priv1" "private_subnet_2 g = Inr priv2"
    by (auto simp: public_subnet_1_def public_subnet_2_def private_subnet_1_def
        private_subnet_2_def py_index_def)
  show ?thesis
    unfolding main_program_def s and_then_def
    by (simp add: register_all_initial export_main_outputs)
qed

lemma main_program_raises:
  assumes "length (availability_zones g) < 2"
  shows "main_program g = Inl IndexError"
  using assms
  by (auto simp: main_program_def and_then_def public_subnet_1_def public_subnet_2_def
      py_index_def split: sum.splits)

section \<open>Zone pairing of the network\<close>

text \<open>
  C1. With two availability zones configured (or more: the first two are used), the
  program declares exactly two public subnets, two private subnets, two NAT gateways
  and two private route tables. For \<open>i = 1, 2\<close>, private route table \<open>i\<close> has the
  single route \<open>0.0.0.0/0\<close> to NAT gateway \<open>i\<close>, which is placed in public subnet
  \<open>i\<close>; private subnet \<open>i\<close> is associated with private route table \<open>i\<close>; and public
  subnet \<open>i\<close> and private subnet \<open>i\<close> are both in zone \<open>availability_zones[i-1]\<close>.
\<close>

theorem network_zone_pairing:
  assumes "2 \<le> length (availability_zones g)"
  shows "\<exists>st. main_program g = Inr st
   \<and> map rvar (filter is_public_subnet (resources st))
        = [''public_subnet_1'', ''public_subnet_2'']
   \<and> map rvar (filter is_private_subnet (resources st))
        = [''private_subnet_1'', ''private_subnet_2'']
   \<and> map rvar (of_kind NatGateway (resources st)) = [''nat_gateway_1'', ''nat_gateway_2'']
   \<and> map rvar (private_route_tables (resources st))
        = [''private_route_table_1'', ''private_route_table_2'']
   \<and> zone_paired (resources st) (availability_zones g ! 0) ''private_route_table_1''
        ''nat_gateway_1'' ''public_subnet_1'' ''private_subnet_1''
        ''private_route_table_assoc_1''
   \<and> zone_paired (resources st) (availability_zones g ! 1) ''private_route_table_2''
        ''nat_gateway_2'' ''public_subnet_2'' ''private_subnet_2''
        ''private_route_table_assoc_2''"
proof -
  from main_program_runs [OF assms] obtain pub1 pub2 priv1 priv2 where
    s: "public_subnet_1 g = Inr pub1" "public_subnet_2 g = Inr pub2"
       "private_subnet_1 g = Inr priv1" "private_subnet_2 g = Inr priv2" and
    m: "main_program g = Inr \<lparr> resources = main_declarations g pub1 pub2 priv1 priv2,
       exports = main_outputs, messages = [] \<rparr>"
    by blast
  note f = public_subnet_1_facts [OF s(1)] public_subnet_2_facts [OF s(2)]
    private_subnet_1_facts [OF s(3)] private_subnet_2_facts [OF s(4)] declaration_facts
  let ?rs = "main_declarations g pub1 pub2 priv1 priv2"
  have pub: "filter is_public_subnet ?rs = [pub1, pub2]"
    by (simp add: main_declarations_def is_public_subnet_def f)
  have priv: "filter is_private_subnet ?rs = [priv1, priv2]"
    by (simp add: main_declarations_def is_private_subnet_def f)
  have ngw: "of_kind NatGateway ?rs = [nat_gateway_1 g, nat_gateway_2 g]"
    by (simp add: main_declarations_def of_kind_def f)
  have rts: "of_kind RouteTable ?rs
      = [public_route_table g, private_route_table_1 g, private_route_table_2 g]"
    by (simp add: main_declarations_def of_kind_def f)
  have assocs: "of_kind RouteTableAssociation ?rs
      = [public_route_table_assoc_1, public_route_table_assoc_2,
         private_route_table_assoc_1, private_route_table_assoc_2]"
    by (simp add: main_declarations_def of_kind_def f)
  have prt: "private_route_tables ?rs = [private_route_table_1 g, private_route_table_2 g]"
    unfolding private_route_tables_def priv rts assocs by (simp add: f)
  have z1: "zone_paired ?rs (availability_zones g ! 0) ''private_route_table_1''
        ''nat_gateway_1'' ''public_subnet_1'' ''private_subnet_1''
        ''private_route_table_assoc_1''"
    by (simp add: zone_paired_def main_declarations_def is_public_subnet_def
        is_private_subnet_def f)
  have z2: "zone_paired ?rs (availability_zones g ! 1) ''private_route_table_2''
        ''nat_gateway_2'' ''public_subnet_2'' ''private_subnet_2''
        ''private_route_table_assoc_2''"
    by (simp add: zone_paired_def main_declarations_def is_public_subnet_def
        is_private_subnet_def f)
  from m pub priv ngw prt z1 z2 show ?thesis by (simp add: f)
qed

lemma default_zones:
  "availability_zones (config_module empty_config) = [''us-east-1a'', ''us-east-1b'']"
  by (simp add: config_module_def empty_config_def py_or_def)

theorem network_zone_pairing_witness:
  "2 \<le> length (availability_zones (config_module empty_config))
 \<and> (\<exists>st. main_program (config_module empty_config) = Inr st
   \<and> map rvar (filter is_public_subnet (resources st))
        = [''public_subnet_1'', ''public_subnet_2'']
   \<and> map rvar (filter is_private_subnet (resources st))
        = [''private_subnet_1'', ''private_subnet_2'']
   \<and> map rvar (of_kind NatGateway (resources st)) = [''nat_gateway_1'', ''nat_gateway_2'']
   \<and> map rvar (private_route_tables (resources st))
        = [''private_route_table_1'', ''private_route_table_2'']
   \<and> zone_paired (resources st) ''us-east-1a'' ''private_route_table_1''
        ''nat_gateway_1'' ''public_subnet_1'' ''private_subnet_1''
        ''private_route_table_assoc_1''
   \<and> zone_paired (resources st) ''us-east-1b'' ''private_route_table_2''
        ''nat_gateway_2'' ''public_subnet_2'' ''private_subnet_2''
        ''private_route_table_assoc_2'')"
proof -
  have z: "2 \<le> length (availability_zones (config_module empty_config))"
    by (simp add: default_zones)
  from network_zone_pairing [OF z] z show ?thesis
    by (simp add: default_zones)
qed

section \<open>Outputs of the main program\<close>

text \<open>
  C4. With two zones or more configured the main program runs to its exports, and
  its stack outputs are a flat mapping: each of the eleven keys \<open>vpc_id\<close>, \<open>vpc_cidr\<close>, \<open>cluster_name\<close>, \<open>cluster_endpoint\<close>,
  \<open>cluster_version\<close>, \<open>cluster_arn\<close>, \<open>node_group_id\<close> and the four subnet ids is
  bound to one output of a declared resource. The value under \<open>cluster_endpoint\<close> is
  the output \<open>endpoint\<close> of the object bound to \<open>eks_cluster\<close>, which is the cluster.
\<close>

theorem main_program_outputs:
  assumes "2 \<le> length (availability_zones g)"
  shows "\<exists>st. main_program g = Inr st
   \<and> map fst (exports st) = [''vpc_id'', ''vpc_cidr'', ''cluster_name'', ''cluster_endpoint'',
        ''cluster_version'', ''cluster_arn'', ''node_group_id'', ''public_subnet_1_id'',
        ''public_subnet_2_id'', ''private_subnet_1_id'', ''private_subnet_2_id'']
   \<and> list_all (\<lambda>(k, v). is_ref v) (exports st)
   \<and> map (\<lambda>(v, a). map_option rkind (find_var (resources st) v))
        (concat (map (\<lambda>(k, v). refs_of v) (exports st)))
      = [Some Vpc, Some Vpc, Some Cluster, Some Cluster, Some Cluster, Some Cluster,
         Some NodeGroup, Some Subnet, Some Subnet, Some Subnet, Some Subnet]
   \<and> dict_get (exports st) ''vpc_id'' = Some (PRef ''vpc'' ''id'')
   \<and> dict_get (exports st) ''vpc_cidr'' = Some (PRef ''vpc'' ''cidr_block'')
   \<and> dict_get (exports st) ''cluster_name'' = Some (PRef ''eks_cluster'' ''name'')
   \<and> dict_get (exports st) ''cluster_endpoint'' = Some (PRef ''eks_cluster'' ''endpoint'')
   \<and> dict_get (exports st) ''cluster_version'' = Some (PRef ''eks_cluster'' ''version'')
   \<and> dict_get (exports st) ''cluster_arn'' = Some (PRef ''eks_cluster'' ''arn'')
   \<and> dict_get (exports st) ''node_group_id'' = Some (PRef ''node_group'' ''id'')
   \<and> dict_get (exports st) ''public_subnet_1_id'' = Some (PRef ''public_subnet_1'' ''id'')
   \<and> dict_get (exports st) ''public_subnet_2_id'' = Some (PRef ''public_subnet_2'' ''id'')
   \<and> dict_get (exports st) ''private_subnet_1_id'' = Some (PRef ''private_subnet_1'' ''id'')
   \<and> dict_get (exports st) ''private_subnet_2_id'' = Some (PRef ''private_subnet_2'' ''id'')
   \<and> find_var (resources st) ''eks_cluster'' = Some (eks_cluster g)
   \<and> rkind (eks_cluster g) = Cluster"
proof -
  from main_program_runs [OF assms] obtain pub1 pub2 priv1 priv2 where
    s: "public_subnet_1 g = Inr pub1" "public_subnet_2 g = Inr pub2"
       "private_subnet_1 g = Inr priv1" "private_subnet_2 g = Inr priv2" and
    m: "main_program g = Inr \<lparr> resources = main_declarations g pub1 pub2 priv1 priv2,
       exports = main_outputs, messages = [] \<rparr>"
    by blast
  note f = public_subnet_1_facts [OF s(1)] public_subnet_2_facts [OF s(2)]
    private_subnet_1_facts [OF s(3)] private_subnet_2_facts [OF s(4)] declaration_facts
  let ?rs = "main_declarations g pub1 pub2 priv1 priv2"
  have keys: "map fst main_outputs = [''vpc_id'', ''vpc_cidr'', ''cluster_name'',
        ''cluster_endpoint'', ''cluster_version'', ''cluster_arn'', ''node_group_id'',
        ''public_subnet_1_id'', ''public_subnet_2_id'', ''private_subnet_1_id'',
        ''private_subnet_2_id'']"
    by (simp add: main_outputs_def)
  have flat: "list_all (\<lambda>(k, v). is_ref v) main_outputs"
    by (simp add: main_outputs_def is_ref_def)
  have refs: "concat (map (\<lambda>(k, v). refs_of v) main_outputs) =
      [(''vpc'', ''id''), (''vpc'', ''cidr_block''), (''eks_cluster'', ''name''),
       (''eks_cluster'', ''endpoint''), (''eks_cluster'', ''version''),
       (''eks_cluster'', ''arn''), (''node_group'', ''id''), (''public_subnet_1'', ''id''),
       (''public_subnet_2'', ''id''), (''private_subnet_1'', ''id''),
       (''private_subnet_2'', ''id'')]"
    by (simp add: main_outputs_def)
  have kinds: "map (\<lambda>(v, a). map_option rkind (find_var ?rs v))
        (concat (map (\<lambda>(k, v). refs_of v) main_outputs))
      = [Some Vpc, Some Vpc, Some Cluster, Some Cluster, Some Cluster, Some Cluster,
         Some NodeGroup, Some Subnet, Some Subnet, Some Subnet, Some Subnet]"
    unfolding refs by (simp add: main_declarations_def f)
  have gets: "dict_get main_outputs ''vpc_id'' = Some (PRef ''vpc'' ''id'')"
    "dict_get main_outputs ''vpc_cidr'' = Some (PRef ''vpc'' ''cidr_block'')"
    "dict_get main_outputs ''cluster_name'' = Some (PRef ''eks_cluster'' ''name'')"
    "dict_get main_outputs ''cluster_endpoint'' = Some (PRef ''eks_cluster'' ''endpoint'')"
    "dict_get main_outputs ''cluster_version'' = Some (PRef ''eks_cluster'' ''version'')"
    "dict_get main_outputs ''cluster_arn'' = Some (PRef ''eks_cluster'' ''arn'')"
    "dict_get main_outputs ''node_group_id'' = Some (PRef ''node_group'' ''id'')"
    "dict_get main_outputs ''public_subnet_1_id'' = Some (PRef ''public_subnet_1'' ''id'')"
    "dict_get main_outputs ''public_subnet_2_id'' = Some (PRef ''public_subnet_2'' ''id'')"
    "dict_get main_outputs ''private_subnet_1_id'' = Some (PRef ''private_subnet_1'' ''id'')"
    "dict_get main_outputs ''private_subnet_2_id'' = Some (PRef ''private_subnet_2'' ''id'')"
    by (simp_all add: main_outputs_def)
  have cl: "find_var ?rs ''eks_cluster'' = Some (eks_cluster g)"
    by (simp add: main_declarations_def f)
  from m keys flat kinds gets cl show ?thesis by (simp add: f)
qed

theorem main_program_outputs_witness:
  "2 \<le> length (availability_zones (config_module empty_config))
 \<and> (\<exists>st. main_program (config_module empty_config) = Inr st
   \<and> map fst (exports st) = [''vpc_id'', ''vpc_cidr'', ''cluster_name'', ''cluster_endpoint'',
        ''cluster_version'', ''cluster_arn'', ''node_group_id'', ''public_subnet_1_id'',
        ''public_subnet_2_id'', ''private_subnet_1_id'', ''private_subnet_2_id'']
   \<and> list_all (\<lambda>(k, v). is_ref v) (exports st)
   \<and> map (\<lambda>(v, a). map_option rkind (find_var (resources st) v))
        (concat (map (\<lambda>(k, v). refs_of v) (exports st)))
      = [Some Vpc, Some Vpc, Some Cluster, Some Cluster, Some Cluster, Some Cluster,
         Some NodeGroup, Some Subnet, Some Subnet, Some Subnet, Some Subnet]
   \<and> dict_get (exports st) ''vpc_id'' = Some (PRef ''vpc'' ''id'')
   \<and> dict_get (exports st) ''vpc_cidr'' = Some (PRef ''vpc'' ''cidr_block'')
   \<and> dict_get (exports st) ''cluster_name'' = Some (PRef ''eks_cluster'' ''name'')
   \<and> dict_get (exports st) ''cluster_endpoint'' = Some (PRef ''eks_cluster'' ''endpoint'')
   \<and> dict_get (exports st) ''cluster_version'' = Some (PRef ''eks_cluster'' ''version'')
   \<and> dict_get (exports st) ''cluster_arn'' = Some (PRef ''eks_cluster'' ''arn'')
   \<and> dict_get (exports st) ''node_group_id'' = Some (PRef ''node_group'' ''id'')
   \<and> dict_get (exports st) ''public_subnet_1_id'' = Some (PRef ''public_subnet_1'' ''id'')
   \<and> dict_get (exports st) ''public_subnet_2_id'' = Some (PRef ''public_subnet_2'' ''id'')
   \<and> dict_get (exports st) ''private_subnet_1_id'' = Some (PRef ''private_subnet_1'' ''id'')
   \<and> dict_get (exports st) ''private_subnet_2_id'' = Some (PRef ''private_subnet_2'' ''id'')
   \<and> find_var (resources st) ''eks_cluster'' = Some (eks_cluster (config_module empty_config))
   \<and> rkind (eks_cluster (config_module empty_config)) = Cluster)"
proof -
  have z: "2 \<le> length (availability_zones (config_module empty_config))"
    by (simp add: default_zones)
  show ?thesis
    by (rule conjI [OF z main_program_outputs [OF z]])
qed

section \<open>Ordering hints\<close>

text \<open>
  C7. Each of the two NAT gateway declarations lists the internet gateway in
  \<open>depends_on\<close>, and reads no output of it: the outputs its arguments read are the
  \<open>id\<close> of a public subnet and the \<open>id\<close> of an Elastic IP. These two are the NAT
  gateways of the program.
\<close>

theorem nat_gateways_depend_on_igw:
  "rdepends_on (nat_gateway_1 g) = [''igw'']
 \<and> rdepends_on (nat_gateway_2 g) = [''igw'']
 \<and> rvar (igw g) = ''igw'' \<and> rkind (igw g) = InternetGateway
 \<and> resource_refs (nat_gateway_1 g) = [(''public_subnet_1'', ''id''), (''eip_1'', ''id'')]
 \<and> resource_refs (nat_gateway_2 g) = [(''public_subnet_2'', ''id''), (''eip_2'', ''id'')]
 \<and> (2 \<le> length (availability_zones g) \<longrightarrow>
      (\<exists>st. main_program g = Inr st
       \<and> of_kind NatGateway (resources st) = [nat_gateway_1 g, nat_gateway_2 g]
       \<and> find_var (resources st) ''igw'' = Some (igw g)
       \<and> ref_kinds (resources st) (nat_gateway_1 g) = [Some Subnet, Some Eip]
       \<and> ref_kinds (resources st) (nat_gateway_2 g) = [Some Subnet, Some Eip]
       \<and> map_option is_public_subnet (find_var (resources st) ''public_subnet_1'') = Some True
       \<and> map_option is_public_subnet (find_var (resources st) ''public_subnet_2'') = Some True))"
proof -
  have "\<exists>st. main_program g = Inr st
       \<and> of_kind NatGateway (resources st) = [nat_gateway_1 g, nat_gateway_2 g]
       \<and> find_var (resources st) ''igw'' = Some (igw g)
       \<and> ref_kinds (resources st) (nat_gateway_1 g) = [Some Subnet, Some Eip]
       \<and> ref_kinds (resources st) (nat_gateway_2 g) = [Some Subnet, Some Eip]
       \<and> map_option is_public_subnet (find_var (resources st) ''public_subnet_1'') = Some True
       \<and> map_option is_public_subnet (find_var (resources st) ''public_subnet_2'') = Some True"
    if z: "2 \<le> length (availability_zones g)"
  proof -
    from main_program_runs [OF z] obtain pub1 pub2 priv1 priv2 where
      s: "public_subnet_1 g = Inr pub1" "public_subnet_2 g = Inr pub2"
         "private_subnet_1 g = Inr priv1" "private_subnet_2 g = Inr priv2" and
      m: "main_program g = Inr \<lparr> resources = main_declarations g pub1 pub2 priv1 priv2,
         exports = main_outputs, messages = [] \<rparr>"
      by blast
    note f = public_subnet_1_facts [OF s(1)] public_subnet_2_facts [OF s(2)]
      private_subnet_1_facts [OF s(3)] private_subnet_2_facts [OF s(4)] declaration_facts
    let ?rs = "main_declarations g pub1 pub2 priv1 priv2"
    have a: "of_kind NatGateway ?rs = [nat_gateway_1 g, nat_gateway_2 g]"
      by (simp add: main_declarations_def of_kind_def f)
    have b: "find_var ?rs ''igw'' = Some (igw g)"
      by (simp add: main_declarations_def f)
    have c: "ref_kinds ?rs (nat_gateway_1 g) = [Some Subnet, Some Eip]"
      "ref_kinds ?rs (nat_gateway_2 g) = [Some Subnet, Some Eip]"
      by (simp_all add: ref_kinds_def main_declarations_def f)
    have d: "map_option is_public_subnet (find_var ?rs ''public_subnet_1'') = Some True"
      "map_option is_public_subnet (find_var ?rs ''public_subnet_2'') = Some True"
      by (simp_all add: main_declarations_def is_public_subnet_def f)
    from m a b c d show ?thesis by simp
  qed
  then show ?thesis
    by (simp add: nat_gateway_facts igw_facts)
qed

theorem nat_gateways_depend_on_igw_witness:
  "2 \<le> length (availability_zones (config_module empty_config))
 \<and> (\<exists>st. main_program (config_module empty_config) = Inr st
       \<and> of_kind NatGateway (resources st) = [nat_gateway_1 (config_module empty_config),
            nat_gateway_2 (config_module empty_config)]
       \<and> find_var (resources st) ''igw'' = Some (igw (config_module empty_config))
       \<and> ref_kinds (resources st) (nat_gateway_1 (config_module empty_config))
            = [Some Subnet, Some Eip]
       \<and> ref_kinds (resources st) (nat_gateway_2 (config_module empty_config))
            = [Some Subnet, Some Eip]
       \<and> map_option is_public_subnet (find_var (resources st) ''public_subnet_1'') = Some True
       \<and> map_option is_public_subnet (find_var (resources st) ''public_subnet_2'') = Some True)"
proof -
  have z: "2 \<le> length (availability_zones (config_module empty_config))"
    by (simp add: default_zones)
  from nat_gateways_depend_on_igw [of "config_module empty_config"]
  have "2 \<le> length (availability_zones (config_module empty_config)) \<longrightarrow>
     (\<exists>st. main_program (config_module empty_config) = Inr st
       \<and> of_kind NatGateway (resources st) = [nat_gateway_1 (config_module empty_config),
            nat_gateway_2 (config_module empty_config)]
       \<and> find_var (resources st) ''igw'' = Some (igw (config_module empty_config))
       \<and> ref_kinds (resources st) (nat_gateway_1 (config_module empty_config))
            = [Some Subnet, Some Eip]
       \<and> ref_kinds (resources st) (nat_gateway_2 (config_module empty_config))
            = [Some Subnet, Some Eip]
       \<and> map_option is_public_subnet (find_var (resources st) ''public_subnet_1'') = Some True
       \<and> map_option is_public_subnet (find_var (resources st) ''public_subnet_2'') = Some True)"
    by (elim conjE)
  from this [rule_format, OF z] z show ?thesis by (rule conjI [rotated])
qed

section \<open>Acyclicity\<close>

lemma declared_before_fresh:
  "declared_before seen rs \<Longrightarrow> r \<in> set rs \<Longrightarrow> rvar r \<notin> set seen"
proof (induction rs arbitrary: seen)
  case Nil
  then show ?case by simp
next
  case (Cons a rs)
  show ?case
  proof (cases "r = a")
    case True
    with Cons.prems show ?thesis by simp
  next
    case False
    with Cons.prems have "declared_before (rvar a # seen) rs" "r \<in> set rs" by auto
    from Cons.IH [OF this] show ?thesis by simp
  qed
qed

lemma declared_before_position:
  "declared_before seen rs \<Longrightarrow> r \<in> set rs \<Longrightarrow> v \<in> set (deps r) \<Longrightarrow>
     v \<in> set seen \<or> position rs v < position rs (rvar r)"
proof (induction rs arbitrary: seen)
  case Nil
  then show ?case by simp
next
  case (Cons r0 rs)
  show ?case
  proof (cases "r = r0")
    case True
    with Cons.prems show ?thesis by (auto simp: list_all_iff)
  next
    case False
    with Cons.prems have r: "r \<in> set rs" and d: "declared_before (rvar r0 # seen) rs"
      by auto
    from declared_before_fresh [OF d r] have ne: "rvar r0 \<noteq> rvar r" by auto
    from Cons.IH [OF d r Cons.prems(3)] ne show ?thesis by auto
  qed
qed

text \<open>Declaration order is then a topological order: every edge points to a smaller position.\<close>

lemma declared_before_edges:
  assumes "declared_before [] rs" and "(a, b) \<in> edges rs"
  shows "position rs b < position rs a"
  using declared_before_position [OF assms(1)] assms(2) by (auto simp: edges_def)

lemma declared_before_acyclic:
  assumes "declared_before [] rs"
  shows "acyclic (edges rs)"
proof -
  have "(edges rs)\<inverse> \<subseteq> measure (position rs)"
    using declared_before_edges [OF assms] by auto
  then have "wf ((edges rs)\<inverse>)"
    by (rule wf_subset [OF wf_measure])
  then have "acyclic ((edges rs)\<inverse>)" by (rule wf_acyclic)
  then show ?thesis by simp
qed

lemma main_program_declared_before:
  assumes "2 \<le> length (availability_zones g)"
  shows "\<exists>st. main_program g = Inr st \<and> declared_before [] (resources st)"
proof -
  from main_program_runs [OF assms] obtain pub1 pub2 priv1 priv2 where
    s: "public_subnet_1 g = Inr pub1" "public_subnet_2 g = Inr pub2"
       "private_subnet_1 g = Inr priv1" "private_subnet_2 g = Inr priv2" and
    m: "main_program g = Inr \<lparr> resources = main_declarations g pub1 pub2 priv1 priv2,
       exports = main_outputs, messages = [] \<rparr>"
    by blast
  note f = public_subnet_1_facts [OF s(1)] public_subnet_2_facts [OF s(2)]
    private_subnet_1_facts [OF s(3)] private_subnet_2_facts [OF s(4)] declaration_facts
  have "declared_before [] (main_declarations g pub1 pub2 priv1 priv2)"
    by (simp add: main_declarations_def f)
  with m show ?thesis by simp
qed

lemma setup_hpa_declared_before:
  assumes "enable_hpa s"
  shows "\<exists>d st. setup_hpa_infrastructure s p initial_state = Inr (d, st)
     \<and> declared_before [] (resources st)"
  by (simp add: setup_enabled [OF assms] initial_state_def hpa_decl_facts)

text \<open>
  C8. The declarations of the main program (which runs when two zones or more are
  configured), in the order they run, bind each variable once and read only outputs of, and depend only on, resources declared strictly
  earlier; so every edge of the dependency graph points to an earlier position and the
  graph is acyclic. The same holds for the declarations that
  \<open>setup_hpa_infrastructure\<close> makes, where the autoscaler depends on the deployment.
\<close>

theorem declarations_acyclic:
  "(2 \<le> length (availability_zones g) \<longrightarrow>
      (\<exists>st. main_program g = Inr st
       \<and> declared_before [] (resources st)
       \<and> (\<forall>(a, b) \<in> edges (resources st).
             position (resources st) b < position (resources st) a)
       \<and> acyclic (edges (resources st))))
 \<and> (enable_hpa s \<longrightarrow>
      (\<exists>d st. setup_hpa_infrastructure s p initial_state = Inr (d, st)
       \<and> declared_before [] (resources st)
       \<and> (''hpa'', ''deployment'') \<in> edges (resources st)
       \<and> (\<forall>(a, b) \<in> edges (resources st).
             position (resources st) b < position (resources st) a)
       \<and> acyclic (edges (resources st))))"
proof (intro conjI impI)
  assume "2 \<le> length (availability_zones g)"
  from main_program_declared_before [OF this] obtain st where
    st: "main_program g = Inr st" "declared_before [] (resources st)"
    by blast
  from st(2) have "\<forall>(a, b) \<in> edges (resources st).
      position (resources st) b < position (resources st) a"
    by (auto dest: declared_before_edges)
  with st declared_before_acyclic [OF st(2)]
  show "\<exists>st. main_program g = Inr st
       \<and> declared_before [] (resources st)
       \<and> (\<forall>(a, b) \<in> edges (resources st).
             position (resources st) b < position (resources st) a)
       \<and> acyclic (edges (resources st))"
    by blast
next
  assume e: "enable_hpa s"
  from setup_hpa_declared_before [OF e] obtain d st where
    st: "setup_hpa_infrastructure s p initial_state = Inr (d, st)"
      "declared_before [] (resources st)"
    by blast
  from st(1) have "resources st = [metrics_chart_decl p, deployment_decl s p, service_decl s p,
      hpa_decl s (deployment_decl s p) p]"
    by (auto simp: setup_enabled [OF e] initial_state_def)
  then have "hpa_decl s (deployment_decl s p) p \<in> set (resources st)"
    by simp
  moreover have "''deployment'' \<in> set (deps (hpa_decl s (deployment_decl s p) p))"
    by (simp add: hpa_decl_facts)
  ultimately have "(rvar (hpa_decl s (deployment_decl s p) p), ''deployment'')
      \<in> edges (resources st)"
    unfolding edges_def by blast
  then have edge: "(''hpa'', ''deployment'') \<in> edges (resources st)"
    by (simp add: hpa_decl_facts)
  from st(2) have "\<forall>(a, b) \<in> edges (resources st).
      position (resources st) b < position (resources st) a"
    by (auto dest: declared_before_edges)
  with st edge declared_before_acyclic [OF st(2)]
  show "\<exists>d st. setup_hpa_infrastructure s p initial_state = Inr (d, st)
       \<and> declared_before [] (resources st)
       \<and> (''hpa'', ''deployment'') \<in> edges (resources st)
       \<and> (\<forall>(a, b) \<in> edges (resources st).
             position (resources st) b < position (resources st) a)
       \<and> acyclic (edges (resources st))"
    by blast
qed


theorem declarations_acyclic_witness:
  "2 \<le> length (availability_zones (config_module empty_config))
 \<and> (\<exists>st. main_program (config_module empty_config) = Inr st
       \<and> declared_before [] (resources st)
       \<and> (\<forall>(a, b) \<in> edges (resources st).
             position (resources st) b < position (resources st) a)
       \<and> acyclic (edges (resources st)))
 \<and> enable_hpa (hpa_module empty_config)
 \<and> (\<exists>d st. setup_hpa_infrastructure (hpa_module empty_config) ''provider'' initial_state
          = Inr (d, st)
       \<and> declared_before [] (resources st)
       \<and> (''hpa'', ''deployment'') \<in> edges (resources st)
       \<and> (\<forall>(a, b) \<in> edges (resources st).
             position (resources st) b < position (resources st) a)
       \<and> acyclic (edges (resources st)))"
proof -
  have z: "2 \<le> length (availability_zones (config_module empty_config))"
    by (simp add: default_zones)
  have e: "enable_hpa (hpa_module empty_config)"
    by (rule enable_hpa_always)
  note t = declarations_acyclic [of "config_module empty_config" "hpa_module empty_config"
      "''provider''"]
  from t have 1: "2 \<le> length (availability_zones (config_module empty_config)) \<longrightarrow>
     (\<exists>st. main_program (config_module empty_config) = Inr st
       \<and> declared_before [] (resources st)
       \<and> (\<forall>(a, b) \<in> edges (resources st).
             position (resources st) b < position (resources st) a)
       \<and> acyclic (edges (resources st)))"
    by (rule conjunct1)
  from t have 2: "enable_hpa (hpa_module empty_config) \<longrightarrow>
     (\<exists>d st. setup_hpa_infrastructure (hpa_module empty_config) ''provider'' initial_state
          = Inr (d, st)
       \<and> declared_before [] (resources st)
       \<and> (''hpa'', ''deployment'') \<in> edges (resources st)
       \<and> (\<forall>(a, b) \<in> edges (resources st).
             position (resources st) b < position (resources st) a)
       \<and> acyclic (edges (resources st)))"
    by (rule conjunct2)
  from z 1 [rule_format, OF z] e 2 [rule_format, OF e] show ?thesis
    by (intro conjI)
qed

end
